theory Spec2Isabelle
  imports Complex_Main "HOL-Library.AList"
begin

section \<open>Values shared by the two scripts\<close>

text \<open>
  The repository holds two command-line scripts: \<^verbatim>\<open>scripts/collect_data.py\<close> (acquire a
  raster file per product, extract the pixel nearest to a coordinate, assemble one
  observation record) and \<^verbatim>\<open>scripts/upload_to_mysql.py\<close> (read that record, upsert it
  into a relational store, fall back to a CSV backup).

  Numbers: a Python or numpy float is modelled by the real number it denotes, or by
  \<open>NaN\<close>. Arithmetic is exact: rounding error, overflow and the infinities of IEEE-754
  are outside the model. Python's \<open>int\<close> is \<open>int\<close>; array indices are \<open>nat\<close>.
\<close>

datatype fnum = NaN | Fin real

fun isnan :: "fnum \<Rightarrow> bool" where
  "isnan NaN = True"
| "isnan (Fin x) = False"

fun fsub :: "fnum \<Rightarrow> real \<Rightarrow> fnum" where
  "fsub NaN c = NaN"
| "fsub (Fin x) c = Fin (x - c)"

text \<open>
  Python objects that are written to or read from JSON: \<open>None\<close>, integers, floats,
  strings and dictionaries. A dictionary is an association list in insertion order
  with distinct keys; \<open>map_of\<close> reads a key and \<open>AList.update\<close> is the assignment
  \<^verbatim>\<open>d[k] = v\<close>. A \<open>string\<close> is the UTF-8 byte sequence of the Python string.
\<close>

datatype pyval =
    VNone
  | VInt int
  | VFloat fnum
  | VStr string
  | VDict "(string \<times> pyval) list"

type_synonym dict = "(string \<times> pyval) list"

definition has_key :: "string \<Rightarrow> dict \<Rightarrow> bool" where
  "has_key k d = (map_of d k \<noteq> None)"

text \<open>
  The exception classes that the modelled code can meet. A computation that may raise
  returns \<open>Inl\<close> of the exception; \<open>then_do\<close> runs the next statement unless the
  previous one raised.
\<close>

datatype py_exn = OSError | KeyError | ValueError | IndexError | TypeError

definition then_do :: "py_exn + 'a \<Rightarrow> ('a \<Rightarrow> py_exn + 'b) \<Rightarrow> py_exn + 'b" where
  "then_do m f = (case m of Inl e \<Rightarrow> Inl e | Inr x \<Rightarrow> f x)"

section \<open>Arrays and the numpy operations of the extractor\<close>

text \<open>
  A two-dimensional numpy array: its shape and its cells in row-major order, so that
  cell \<open>(i, j)\<close> is \<open>cells ! (i * ncols + j)\<close>. An array read from a file satisfies
  \<open>wf_array\<close>.
\<close>

record 'a ndarray =
  nrows :: nat
  ncols :: nat
  cells :: "'a list"

definition wf_array :: "'a ndarray \<Rightarrow> bool" where
  "wf_array a = (length (cells a) = nrows a * ncols a)"

definition cell :: "'a ndarray \<Rightarrow> nat \<Rightarrow> nat \<Rightarrow> 'a" where
  "cell a i j = cells a ! (i * ncols a + j)"

text \<open>\<^verbatim>\<open>a[(i, j)]\<close> with non-negative indices: IndexError outside the shape.\<close>

definition getitem2 :: "'a ndarray \<Rightarrow> nat \<times> nat \<Rightarrow> py_exn + 'a" where
  "getitem2 a idx =
     (case idx of (i, j) \<Rightarrow>
        if i < nrows a \<and> j < ncols a then Inr (cell a i j) else Inl IndexError)"

text \<open>
  numpy broadcasting of two 2-D shapes: along each axis the lengths are equal, or one
  of them is 1 and that array is repeated along the axis; otherwise ValueError.
\<close>

definition broadcast_dim :: "nat \<Rightarrow> nat \<Rightarrow> nat option" where
  "broadcast_dim m n =
     (if m = n then Some m else if m = 1 then Some n else if n = 1 then Some m else None)"

definition bcell :: "'a ndarray \<Rightarrow> nat \<Rightarrow> nat \<Rightarrow> 'a" where
  "bcell a i j = cell a (if nrows a = 1 then 0 else i) (if ncols a = 1 then 0 else j)"

definition tabulate2 :: "nat \<Rightarrow> nat \<Rightarrow> (nat \<Rightarrow> nat \<Rightarrow> 'a) \<Rightarrow> 'a ndarray" where
  "tabulate2 r c f =
     \<lparr>nrows = r, ncols = c, cells = concat (map (\<lambda>i. map (\<lambda>j. f i j) [0..<c]) [0..<r])\<rparr>"

text \<open>
  \<^verbatim>\<open>np.sqrt((lat_grid - lat)**2 + (lon_grid - lon)**2)\<close> (collect_data.py, line 270).
\<close>

definition pixel_distance :: "real \<Rightarrow> real \<Rightarrow> real \<Rightarrow> real \<Rightarrow> real" where
  "pixel_distance la lo lat lon = sqrt ((la - lat)\<^sup>2 + (lo - lon)\<^sup>2)"

definition np_distances ::
  "real ndarray \<Rightarrow> real ndarray \<Rightarrow> real \<Rightarrow> real \<Rightarrow> py_exn + real ndarray" where
  "np_distances lat_grid lon_grid lat lon =
     (case (broadcast_dim (nrows lat_grid) (nrows lon_grid),
            broadcast_dim (ncols lat_grid) (ncols lon_grid)) of
        (Some r, Some c) \<Rightarrow>
          Inr (tabulate2 r c
                 (\<lambda>i j. pixel_distance (bcell lat_grid i j) (bcell lon_grid i j) lat lon))
      | _ \<Rightarrow> Inl ValueError)"

text \<open>
  \<^verbatim>\<open>np.argmin\<close> scans the flattened array once and keeps the first index whose value
  is strictly smaller than every value before it; an empty array raises ValueError.
\<close>

fun argmin_scan :: "real \<Rightarrow> nat \<Rightarrow> nat \<Rightarrow> real list \<Rightarrow> nat" where
  "argmin_scan best pos k [] = pos"
| "argmin_scan best pos k (x # xs) =
     (if x < best then argmin_scan x k (Suc k) xs else argmin_scan best pos (Suc k) xs)"

definition np_argmin :: "real ndarray \<Rightarrow> py_exn + nat" where
  "np_argmin a =
     (case cells a of [] \<Rightarrow> Inl ValueError | x # xs \<Rightarrow> Inr (argmin_scan x 0 1 xs))"

definition unravel_index :: "nat \<Rightarrow> nat \<times> nat \<Rightarrow> nat \<times> nat" where
  "unravel_index k shp = (case shp of (r, c) \<Rightarrow> (k div c, k mod c))"

text \<open>
  \<^verbatim>\<open>data[i_start:i_end, j_start:j_end]\<close> followed by the boolean mask
  \<^verbatim>\<open>[~np.isnan(window_data)]\<close>: the selected cells in row-major order, then the
  ones that are numbers.
\<close>

definition slice2 :: "'a ndarray \<Rightarrow> nat \<Rightarrow> nat \<Rightarrow> nat \<Rightarrow> nat \<Rightarrow> 'a list" where
  "slice2 a i0 i1 j0 j1 =
     concat (map (\<lambda>i. map (\<lambda>j. cell a i j) [min j0 (ncols a)..<min j1 (ncols a)])
                 [min i0 (nrows a)..<min i1 (nrows a)])"

fun drop_nan :: "fnum list \<Rightarrow> real list" where
  "drop_nan [] = []"
| "drop_nan (NaN # xs) = drop_nan xs"
| "drop_nan (Fin x # xs) = x # drop_nan xs"

text \<open>
  The reductions of the window statistics. They are applied under the guard
  \<^verbatim>\<open>len(window_data_clean) > 0\<close> (line 293) only, so the empty list, on which numpy
  warns or raises, is never their argument. \<^verbatim>\<open>np.std\<close> is the population standard
  deviation (\<open>ddof = 0\<close>).
\<close>

definition np_mean :: "real list \<Rightarrow> real" where
  "np_mean xs = sum_list xs / real (length xs)"

definition np_std :: "real list \<Rightarrow> real" where
  "np_std xs = sqrt (np_mean (map (\<lambda>x. \<bar>x - np_mean xs\<bar>\<^sup>2) xs))"

definition np_min :: "real list \<Rightarrow> real" where
  "np_min xs = fold min (tl xs) (hd xs)"

definition np_max :: "real list \<Rightarrow> real" where
  "np_max xs = fold max (tl xs) (hd xs)"

section \<open>Raster files and the extractor\<close>

text \<open>
  An HDF5 file as the extractor reads it: the datasets of group \<^verbatim>\<open>Image_data\<close> by name,
  and the datasets \<^verbatim>\<open>Latitude\<close> and \<^verbatim>\<open>Longitude\<close> of group \<^verbatim>\<open>Geometry_data\<close>
  (\<open>None\<close> when missing). Coordinates are numbers; a data cell may be not-a-number.
  The attributes \<^verbatim>\<open>description\<close> and \<^verbatim>\<open>units\<close> are written by the mock generator and
  never read, so they are kept as strings beside the data.
\<close>

record image_dataset =
  data :: "fnum ndarray"
  description :: string
  units :: string

record hdf5_file =
  image_data :: "(string \<times> image_dataset) list"
  latitude :: "real ndarray option"
  longitude :: "real ndarray option"

text \<open>
  What a path of the file system holds, and the file system itself. Opening a path
  that is missing or is not an HDF5 file raises OSError; reading a dataset that the
  file does not have raises KeyError.
\<close>

datatype file_content = Hdf5 hdf5_file | Not_hdf5

type_synonym filesystem = "string \<rightharpoonup> file_content"

definition h5py_File :: "filesystem \<Rightarrow> string \<Rightarrow> py_exn + hdf5_file" where
  "h5py_File fs path =
     (case fs path of
        None \<Rightarrow> Inl OSError
      | Some Not_hdf5 \<Rightarrow> Inl OSError
      | Some (Hdf5 f) \<Rightarrow> Inr f)"

definition h5_get :: "'a option \<Rightarrow> py_exn + 'a" where
  "h5_get x = (case x of None \<Rightarrow> Inl KeyError | Some v \<Rightarrow> Inr v)"

text \<open>
  The parts of the process environment that \<^verbatim>\<open>collect_data.py\<close> reads: which optional
  libraries were importable (the module-level flags), the two credential variables
  (\<open>os.environ.get\<close> with default \<open>""\<close>), whether scratch storage accepts a new
  file, the text of an exception raised inside a library (\<open>str(e)\<close>), the samples
  that \<^verbatim>\<open>np.random.normal\<close> draws for a mean and a deviation (in the order of the
  cells), and the answer of the remote service to a bounding box, a date and a
  product.
\<close>

datatype remote_outcome =
    Api_error
  | No_products
  | Downloaded "string list"

record environment =
  NUMPY_AVAILABLE :: bool
  H5PY_AVAILABLE :: bool
  GPORTAL_AVAILABLE :: bool
  GPORTAL_USERNAME :: string
  GPORTAL_PASSWORD :: string
  temp_writable :: bool
  exn_text :: "py_exn \<Rightarrow> string"
  random_samples :: "real \<Rightarrow> real \<Rightarrow> nat \<Rightarrow> real"
  gportal :: "real list \<Rightarrow> string \<Rightarrow> string \<Rightarrow> remote_outcome"

text \<open>The message literals of \<^verbatim>\<open>collect_data.py\<close>, as UTF-8 bytes.\<close>

definition msg_libs_required :: string where
  \<comment> \<open>line 251: h5py or numpy is required\<close>
  "msg_libs_required =
     ''h5py'' @ [CHR 0xE3, CHR 0x81, CHR 0xBE, CHR 0xE3, CHR 0x81, CHR 0x9F, CHR 0xE3, CHR 0x81, CHR 0xAF]
     @ ''numpy'' @ [CHR 0xE3, CHR 0x81, CHR 0x8C, CHR 0xE5, CHR 0xBF, CHR 0x85, CHR 0xE8, CHR 0xA6, CHR 0x81,
                    CHR 0xE3, CHR 0x81, CHR 0xA7, CHR 0xE3, CHR 0x81, CHR 0x99]"

definition msg_dataset_missing :: "string \<Rightarrow> string" where
  \<comment> \<open>line 259: dataset <path> was not found\<close>
  "msg_dataset_missing data_path =
     [CHR 0xE3, CHR 0x83, CHR 0x87, CHR 0xE3, CHR 0x83, CHR 0xBC, CHR 0xE3, CHR 0x82, CHR 0xBF,
      CHR 0xE3, CHR 0x82, CHR 0xBB, CHR 0xE3, CHR 0x83, CHR 0x83, CHR 0xE3, CHR 0x83, CHR 0x88] @ '' ''
     @ data_path @ '' ''
     @ [CHR 0xE3, CHR 0x81, CHR 0x8C, CHR 0xE8, CHR 0xA6, CHR 0x8B, CHR 0xE3, CHR 0x81, CHR 0xA4,
        CHR 0xE3, CHR 0x81, CHR 0x8B, CHR 0xE3, CHR 0x82, CHR 0x8A, CHR 0xE3, CHR 0x81, CHR 0xBE,
        CHR 0xE3, CHR 0x81, CHR 0x9B, CHR 0xE3, CHR 0x82, CHR 0x93]"

definition msg_extraction_error :: "string \<Rightarrow> string" where
  \<comment> \<open>line 325: data extraction error: <exception text>\<close>
  "msg_extraction_error e =
     [CHR 0xE3, CHR 0x83, CHR 0x87, CHR 0xE3, CHR 0x83, CHR 0xBC, CHR 0xE3, CHR 0x82, CHR 0xBF,
      CHR 0xE6, CHR 0x8A, CHR 0xBD, CHR 0xE5, CHR 0x87, CHR 0xBA, CHR 0xE3, CHR 0x82, CHR 0xA8,
      CHR 0xE3, CHR 0x83, CHR 0xA9, CHR 0xE3, CHR 0x83, CHR 0xBC] @ '': '' @ e"

definition msg_file_failed :: string where
  \<comment> \<open>line 383: file acquisition failed\<close>
  "msg_file_failed =
     [CHR 0xE3, CHR 0x83, CHR 0x95, CHR 0xE3, CHR 0x82, CHR 0xA1, CHR 0xE3, CHR 0x82, CHR 0xA4,
      CHR 0xE3, CHR 0x83, CHR 0xAB, CHR 0xE5, CHR 0x8F, CHR 0x96, CHR 0xE5, CHR 0xBE, CHR 0x97,
      CHR 0xE5, CHR 0xA4, CHR 0xB1, CHR 0xE6, CHR 0x95, CHR 0x97]"

text \<open>
  Lines 283 to 288: the bounds of the \<open>5 \<times> 5\<close> window around \<open>(i, j)\<close>, clipped to the
  shape of the data. The arithmetic is Python's, on integers.
\<close>

definition window_size :: int where
  "window_size = 5"

definition window_bounds :: "nat \<times> nat \<Rightarrow> nat \<times> nat \<Rightarrow> (nat \<times> nat) \<times> (nat \<times> nat)" where
  "window_bounds shp idx =
     (case shp of (r, c) \<Rightarrow> case idx of (i, j) \<Rightarrow>
        let i_start = max 0 (int i - window_size div 2);
            i_end = min (int r) (int i + window_size div 2 + 1);
            j_start = max 0 (int j - window_size div 2);
            j_end = min (int c) (int j + window_size div 2 + 1)
        in ((nat i_start, nat i_end), (nat j_start, nat j_end)))"

text \<open>Lines 290 and 291: the window's cells that are numbers, in row-major order.\<close>

definition window_data_clean :: "fnum ndarray \<Rightarrow> nat \<times> nat \<Rightarrow> real list" where
  "window_data_clean d idx =
     (case window_bounds (nrows d, ncols d) idx of
        ((i_start, i_end), (j_start, j_end)) \<Rightarrow>
          drop_nan (slice2 d i_start i_end j_start j_end))"

text \<open>
  Lines 293 to 305: the dictionary of statistics, with the Celsius mean for LST, or
  \<open>None\<close> when no number is left in the window.
\<close>

definition window_stats :: "string \<Rightarrow> real list \<Rightarrow> pyval" where
  "window_stats dataset_name clean =
     (if length clean > 0 then
        VDict ([(''mean'', VFloat (Fin (np_mean clean))),
                (''std'', VFloat (Fin (np_std clean))),
                (''min'', VFloat (Fin (np_min clean))),
                (''max'', VFloat (Fin (np_max clean)))]
               @ (if dataset_name = ''LST''
                  then [(''mean_celsius'', VFloat (Fin (np_mean clean - 273.15)))] else []))
      else VNone)"

text \<open>
  Lines 307 to 320: the result dictionary, with the Celsius value under its own key
  when there is one.
\<close>

definition result_dict ::
  "string \<Rightarrow> fnum \<Rightarrow> fnum option \<Rightarrow> nat \<times> nat \<Rightarrow> real \<Rightarrow> real \<Rightarrow> pyval \<Rightarrow> dict" where
  "result_dict dataset_name pixel_value pixel_value_celsius min_idx la lo stats =
     [(''dataset'', VStr dataset_name),
      (''pixel_value'', VFloat pixel_value),
      (''pixel_location'',
         VDict [(''row'', VInt (int (fst min_idx))),
                (''col'', VInt (int (snd min_idx))),
                (''latitude'', VFloat (Fin la)),
                (''longitude'', VFloat (Fin lo))]),
      (''window_statistics'', stats)]
     @ (case pixel_value_celsius of
          None \<Rightarrow> []
        | Some c \<Rightarrow> [(''pixel_value_celsius'', VFloat c)])"

text \<open>
  \<^verbatim>\<open>extract_pixel_value\<close>, lines 254 to 322: the body of the \<^verbatim>\<open>try\<close>, where an
  exception is a left value. The steps keep the order of the source, so that the
  first failing step decides the exception.
\<close>

definition extract_body ::
  "filesystem \<Rightarrow> string \<Rightarrow> real \<Rightarrow> real \<Rightarrow> string \<Rightarrow> py_exn + dict" where
  "extract_body fs hdf5_path lat lon dataset_name =
     then_do (h5py_File fs hdf5_path) (\<lambda>f.
       let data_path = ''Image_data/'' @ dataset_name in
       if map_of (image_data f) dataset_name = None
       then Inr [(''error'', VStr (msg_dataset_missing data_path))]
       else
         then_do (h5_get (map_of (image_data f) dataset_name)) (\<lambda>dataset.
         then_do (h5_get (latitude f)) (\<lambda>lat_grid.
         then_do (h5_get (longitude f)) (\<lambda>lon_grid.
         then_do (np_distances lat_grid lon_grid lat lon) (\<lambda>distances.
         then_do (np_argmin distances) (\<lambda>k.
           let min_idx = unravel_index k (nrows distances, ncols distances) in
           then_do (getitem2 (data dataset) min_idx) (\<lambda>pixel_value.
             let pixel_value_celsius =
                   (if dataset_name = ''LST'' then Some (fsub pixel_value 273.15) else None);
                 stats = window_stats dataset_name (window_data_clean (data dataset) min_idx)
             in
             then_do (getitem2 lat_grid min_idx) (\<lambda>la.
             then_do (getitem2 lon_grid min_idx) (\<lambda>lo.
               Inr (result_dict dataset_name pixel_value pixel_value_celsius min_idx
                      la lo stats))))))))))"

text \<open>
  \<^verbatim>\<open>extract_pixel_value\<close>, lines 237 to 325: the library check, then the body, with
  every exception turned into an error dictionary.
\<close>

definition extract_pixel_value ::
  "environment \<Rightarrow> filesystem \<Rightarrow> string \<Rightarrow> real \<Rightarrow> real \<Rightarrow> string \<Rightarrow> dict" where
  "extract_pixel_value env fs hdf5_path lat lon dataset_name =
     (if \<not> H5PY_AVAILABLE env \<or> \<not> NUMPY_AVAILABLE env
      then [(''error'', VStr msg_libs_required)]
      else case extract_body fs hdf5_path lat lon dataset_name of
             Inl e \<Rightarrow> [(''error'', VStr (msg_extraction_error (exn_text env e)))]
           | Inr result \<Rightarrow> result)"

section \<open>Acquisition: the remote service and the mock generator\<close>

text \<open>The scratch directory, relative to the project root.\<close>

definition TEMP_DIR :: string where
  "TEMP_DIR = ''data/temp''"

text \<open>\<^verbatim>\<open>get_gportal_credentials\<close>, lines 68 to 83.\<close>

definition get_gportal_credentials :: "environment \<Rightarrow> string option \<times> string option" where
  "get_gportal_credentials env =
     (let username = GPORTAL_USERNAME env; password = GPORTAL_PASSWORD env
      in if username = [] \<or> password = [] then (None, None)
         else (Some username, Some password))"

text \<open>
  \<^verbatim>\<open>search_and_download_real\<close>, lines 86 to 165. The calls into the client library
  (the dataset table, the search over the bounding box and the days around the target
  date, the download of the first product) are the environment's \<open>gportal\<close>: it
  answers with an exception, with no product, or with the downloaded paths. Every
  exception is caught and gives \<open>None\<close>.
\<close>

definition search_and_download_real ::
  "environment \<Rightarrow> real \<Rightarrow> real \<Rightarrow> string \<Rightarrow> string \<Rightarrow> string option" where
  "search_and_download_real env lat lon target_date product_type =
     (if \<not> GPORTAL_AVAILABLE env then None
      else case get_gportal_credentials env of (username, password) \<Rightarrow>
        if username = None \<or> password = None then None
        else if product_type \<noteq> ''LST'' \<and> product_type \<noteq> ''NDVI'' then None
        else
          let bbox = [lon - 0.5, lat - 0.5, lon + 0.5, lat + 0.5] in
          (case gportal env bbox target_date product_type of
             Api_error \<Rightarrow> None
           | No_products \<Rightarrow> None
           | Downloaded downloaded_files \<Rightarrow>
               (case downloaded_files of [] \<Rightarrow> None | first # _ \<Rightarrow> Some first)))"

text \<open>
  The numpy functions of the mock generator. \<^verbatim>\<open>np.linspace(a, b, n)\<close> has \<open>n\<close> evenly
  spaced points from \<open>a\<close> to \<open>b\<close>; \<^verbatim>\<open>np.meshgrid(lon_range, lat_range)\<close> repeats the
  longitudes along the rows and the latitudes along the columns; \<^verbatim>\<open>np.clip\<close> bounds
  every cell.
\<close>

definition np_linspace :: "real \<Rightarrow> real \<Rightarrow> nat \<Rightarrow> real list" where
  "np_linspace a b n = map (\<lambda>k. a + real k * ((b - a) / real (n - 1))) [0..<n]"

definition np_meshgrid :: "real list \<Rightarrow> real list \<Rightarrow> real ndarray \<times> real ndarray" where
  "np_meshgrid xs ys =
     (tabulate2 (length ys) (length xs) (\<lambda>i j. xs ! j),
      tabulate2 (length ys) (length xs) (\<lambda>i j. ys ! i))"

definition random_normal :: "environment \<Rightarrow> real \<Rightarrow> real \<Rightarrow> nat \<times> nat \<Rightarrow> real ndarray" where
  "random_normal env mean_value std_value shp =
     (case shp of (r, c) \<Rightarrow>
        tabulate2 r c (\<lambda>i j. random_samples env mean_value std_value (i * c + j)))"

definition np_clip :: "real ndarray \<Rightarrow> real \<Rightarrow> real \<Rightarrow> real ndarray" where
  "np_clip a lo hi = a\<lparr>cells := map (\<lambda>x. min (max x lo) hi) (cells a)\<rparr>"

definition as_fnum :: "real ndarray \<Rightarrow> fnum ndarray" where
  "as_fnum a = \<lparr>nrows = nrows a, ncols = ncols a, cells = map Fin (cells a)\<rparr>"

text \<open>
  \<^verbatim>\<open>create_mock_hdf5\<close>, lines 168 to 234: the path of the new file and the file system
  with it, or \<open>None\<close>. The file is not written when h5py raises (\<open>temp_writable\<close> is
  false).
\<close>

definition create_mock_hdf5 ::
  "environment \<Rightarrow> filesystem \<Rightarrow> real \<Rightarrow> real \<Rightarrow> string \<Rightarrow> string
     \<Rightarrow> string option \<times> filesystem" where
  "create_mock_hdf5 env fs lat lon target_date product_type =
     (if \<not> H5PY_AVAILABLE env \<or> \<not> NUMPY_AVAILABLE env then (None, fs)
      else
        let date_str = filter (\<lambda>c. c \<noteq> CHR ''-'') target_date;
            filename = ''GC1SG1_'' @ date_str @ ''01D01D_'' @ product_type @ ''_MOCK.h5'';
            output_path = TEMP_DIR @ ''/'' @ filename
        in
        if \<not> temp_writable env then (None, fs)
        else
          let lat_range = np_linspace (lat - 0.5) (lat + 0.5) 100;
              lon_range = np_linspace (lon - 0.5) (lon + 0.5) 100;
              (lon_grid, lat_grid) = np_meshgrid lon_range lat_range;
              dataset =
                (if product_type = ''LST'' then
                   \<lparr>data = as_fnum (np_clip (random_normal env 291.5 3.0 (100, 100)) 273.0 320.0),
                    description = ''Land Surface Temperature'',
                    units = ''Kelvin''\<rparr>
                 else
                   \<lparr>data = as_fnum (np_clip (random_normal env 0.75 0.08 (100, 100)) 0.0 1.0),
                    description = ''Normalized Difference Vegetation Index'',
                    units = ''dimensionless''\<rparr>);
              f = \<lparr>image_data = [(product_type, dataset)],
                   latitude = Some lat_grid,
                   longitude = Some lon_grid\<rparr>
          in (Some output_path, fs(output_path \<mapsto> Hdf5 f)))"

section \<open>The collector\<close>

text \<open>\<^verbatim>\<open>str.lower\<close> on the ASCII letters of a product name.\<close>

definition lower_char :: "char \<Rightarrow> char" where
  "lower_char c =
     (let n = (of_char c :: nat) in if 65 \<le> n \<and> n \<le> 90 then char_of (n + 32) else c)"

definition lower :: "string \<Rightarrow> string" where
  "lower s = map lower_char s"

text \<open>The assignment \<^verbatim>\<open>result["observations"][key] = value\<close>.\<close>

definition set_observation :: "dict \<Rightarrow> string \<Rightarrow> pyval \<Rightarrow> dict" where
  "set_observation result key v =
     (case map_of result ''observations'' of
        Some (VDict observations) \<Rightarrow>
          AList.update ''observations'' (VDict (AList.update key v observations)) result
      | _ \<Rightarrow> result)"

text \<open>
  Lines 360 to 363: the file for one product, from the mock generator when mock mode
  was requested or the client library is missing, from the remote service otherwise.
\<close>

definition acquire_file ::
  "environment \<Rightarrow> filesystem \<Rightarrow> real \<Rightarrow> real \<Rightarrow> string \<Rightarrow> bool \<Rightarrow> string
     \<Rightarrow> string option \<times> filesystem" where
  "acquire_file env fs lat lon target_date use_mock product_type =
     (if use_mock \<or> \<not> GPORTAL_AVAILABLE env
      then create_mock_hdf5 env fs lat lon target_date product_type
      else (search_and_download_real env lat lon target_date product_type, fs))"

text \<open>Lines 354 to 384: one turn of the loop over the products.\<close>

definition collect_product ::
  "environment \<Rightarrow> real \<Rightarrow> real \<Rightarrow> string \<Rightarrow> bool \<Rightarrow> string
     \<Rightarrow> dict \<times> filesystem \<Rightarrow> dict \<times> filesystem" where
  "collect_product env lat lon target_date use_mock product_type st =
     (case st of (result, fs) \<Rightarrow>
      case acquire_file env fs lat lon target_date use_mock product_type of
        (hdf5_path, fs') \<Rightarrow>
          (case hdf5_path of
             Some path \<Rightarrow>
               if fs' path \<noteq> None then
                 (let extraction = extract_pixel_value env fs' path lat lon product_type in
                  case map_of extraction ''error'' of
                    None \<Rightarrow>
                      (set_observation result (lower product_type) (VDict extraction), fs')
                  | Some err \<Rightarrow>
                      (set_observation result (lower product_type) (VDict [(''error'', err)]),
                       fs'))
               else
                 (set_observation result (lower product_type)
                    (VDict [(''error'', VStr msg_file_failed)]), fs')
           | None \<Rightarrow>
               (set_observation result (lower product_type)
                  (VDict [(''error'', VStr msg_file_failed)]), fs')))"

text \<open>
  \<^verbatim>\<open>collect_satellite_data\<close>, lines 328 to 386. \<open>now\<close> is the text of
  \<^verbatim>\<open>datetime.now().isoformat()\<close>. The function returns the record and the file system
  as the acquisitions left it.
\<close>

definition collect_satellite_data ::
  "environment \<Rightarrow> filesystem \<Rightarrow> string \<Rightarrow> real \<Rightarrow> real \<Rightarrow> string \<Rightarrow> bool
     \<Rightarrow> dict \<times> filesystem" where
  "collect_satellite_data env fs now lat lon target_date use_mock =
     (let result =
            [(''location'',
                VDict [(''latitude'', VFloat (Fin lat)),
                       (''longitude'', VFloat (Fin lon)),
                       (''name'', VStr ''Observation Point'')]),
             (''observation_date'', VStr target_date),
             (''processing_time'', VStr now),
             (''data_source'', VStr (if use_mock then ''mock'' else ''gportal'')),
             (''observations'', VDict [])]
      in fold (collect_product env lat lon target_date use_mock) [''LST'', ''NDVI'']
           (result, fs))"

section \<open>The ingestor: reading the record\<close>

text \<open>
  The operators of \<^verbatim>\<open>upload_to_mysql.py\<close> on JSON values. \<^verbatim>\<open>k in v\<close> is key membership
  for a dictionary and substring search for a string, and raises TypeError for
  \<open>None\<close> and numbers; \<^verbatim>\<open>v[k]\<close> with a string key raises KeyError for a dictionary
  without the key and TypeError for every other value.
\<close>

fun starts_with :: "string \<Rightarrow> string \<Rightarrow> bool" where
  "starts_with [] s = True"
| "starts_with (k # ks) [] = False"
| "starts_with (k # ks) (c # cs) = (k = c \<and> starts_with ks cs)"

fun contains :: "string \<Rightarrow> string \<Rightarrow> bool" where
  "contains k [] = (k = [])"
| "contains k (c # cs) = (starts_with k (c # cs) \<or> contains k cs)"

fun py_in :: "string \<Rightarrow> pyval \<Rightarrow> py_exn + bool" where
  "py_in k (VDict d) = Inr (has_key k d)"
| "py_in k (VStr s) = Inr (contains k s)"
| "py_in k v = Inl TypeError"

fun py_getitem :: "pyval \<Rightarrow> string \<Rightarrow> py_exn + pyval" where
  "py_getitem (VDict d) k = (case map_of d k of None \<Rightarrow> Inl KeyError | Some v \<Rightarrow> Inr v)"
| "py_getitem v k = Inl TypeError"

text \<open>
  Python's \<^verbatim>\<open>round(x, ndigits)\<close>: the nearest multiple of the \<open>ndigits\<close>-th decimal
  place, a tie going to the even one; not-a-number stays; an \<open>int\<close> is returned as it
  is; other values raise TypeError.
\<close>

definition round_half_even :: "real \<Rightarrow> int" where
  "round_half_even x =
     (let f = \<lfloor>x\<rfloor>; d = x - of_int f
      in if d < 1 / 2 then f else if d > 1 / 2 then f + 1 else if even f then f else f + 1)"

fun round_float :: "fnum \<Rightarrow> nat \<Rightarrow> fnum" where
  "round_float NaN n = NaN"
| "round_float (Fin x) n = Fin (of_int (round_half_even (x * 10 ^ n)) / 10 ^ n)"

fun py_round :: "pyval \<Rightarrow> nat \<Rightarrow> py_exn + pyval" where
  "py_round (VFloat x) n = Inr (VFloat (round_float x n))"
| "py_round (VInt i) n = Inr (VInt i)"
| "py_round v n = Inl TypeError"

text \<open>The dictionary that \<^verbatim>\<open>extract_observation_data\<close> returns has three fixed keys.\<close>

record observation =
  observation_date :: pyval
  lst :: pyval
  ndvi :: pyval

text \<open>
  The test \<^verbatim>\<open>'observations' in json_data and key in json_data['observations']\<close> of
  lines 154 and 160.
\<close>

definition in_observations :: "dict \<Rightarrow> string \<Rightarrow> py_exn + bool" where
  "in_observations json_data key =
     (case map_of json_data ''observations'' of
        None \<Rightarrow> Inr False
      | Some observations \<Rightarrow> py_in key observations)"

text \<open>
  Lines 153 to 157 and 159 to 163: the value of one product, \<open>None\<close> unless the
  product's dictionary has no \<^verbatim>\<open>error\<close> key and has the wanted field, which is then
  rounded.
\<close>

definition product_value :: "dict \<Rightarrow> string \<Rightarrow> string \<Rightarrow> nat \<Rightarrow> py_exn + pyval" where
  "product_value json_data key field ndigits =
     then_do (in_observations json_data key) (\<lambda>present.
       if present then
         then_do (py_getitem (VDict json_data) ''observations'') (\<lambda>observations.
         then_do (py_getitem observations key) (\<lambda>product_data.
         then_do (py_in ''error'' product_data) (\<lambda>has_error.
           if \<not> has_error then
             then_do (py_in field product_data) (\<lambda>has_field.
               if has_field then
                 then_do (py_getitem product_data field) (\<lambda>v. py_round v ndigits)
               else Inr VNone)
           else Inr VNone)))
       else Inr VNone)"

text \<open>\<^verbatim>\<open>extract_observation_data\<close>, lines 137 to 165.\<close>

definition extract_observation_data :: "dict \<Rightarrow> py_exn + observation" where
  "extract_observation_data json_data =
     then_do (product_value json_data ''lst'' ''pixel_value_celsius'' 2) (\<lambda>lst_value.
     then_do (product_value json_data ''ndvi'' ''pixel_value'' 3) (\<lambda>ndvi_value.
       Inr \<lparr>observation_date =
                (case map_of json_data ''observation_date'' of None \<Rightarrow> VNone | Some d \<Rightarrow> d),
            lst = lst_value,
            ndvi = ndvi_value\<rparr>))"

section \<open>The ingestor: the store and the backup\<close>

text \<open>
  Modelled from the spec: the relational schema, which is not among the sources. The
  store has a table \<open>locations(id, name)\<close> and a table
  \<open>observations(location_id, observation_date, lst, ndvi)\<close> with the constraint
  \<open>UNIQUE(location_id, observation_date)\<close>. A key with a NULL date equals no key.
\<close>

record obs_row =
  row_location_id :: int
  row_observation_date :: pyval
  row_lst :: pyval
  row_ndvi :: pyval

record database =
  locations :: "(int \<times> string) list"
  observations :: "obs_row list"

definition same_key :: "obs_row \<Rightarrow> obs_row \<Rightarrow> bool" where
  "same_key r new =
     (row_location_id r = row_location_id new
      \<and> row_observation_date r = row_observation_date new
      \<and> row_observation_date new \<noteq> VNone)"

text \<open>
  The statement of lines 182 to 194, \<^verbatim>\<open>INSERT ... ON DUPLICATE KEY UPDATE lst =
  VALUES(lst), ndvi = VALUES(ndvi)\<close>: the new table and the count of affected rows
  (1 for an insertion, 2 for a row that changed, 0 for a row that already had the
  values).
\<close>

fun upsert_rows :: "obs_row list \<Rightarrow> obs_row \<Rightarrow> obs_row list \<times> nat" where
  "upsert_rows [] new = ([new], 1)"
| "upsert_rows (r # rs) new =
     (if same_key r new then
        (if row_lst r = row_lst new \<and> row_ndvi r = row_ndvi new then (r # rs, 0)
         else (r\<lparr>row_lst := row_lst new, row_ndvi := row_ndvi new\<rparr> # rs, 2))
      else (case upsert_rows rs new of (rs', n) \<Rightarrow> (r # rs', n)))"

text \<open>
  What the driver and the server do besides the tables: whether the driver was
  importable, whether \<^verbatim>\<open>int()\<close> accepts the configured port, the text of the error
  raised by \<^verbatim>\<open>connect\<close> if it fails, and whether the SELECT or the INSERT raises
  \<^verbatim>\<open>pymysql.Error\<close>.
\<close>

record driver =
  PYMYSQL_AVAILABLE :: bool
  port_is_integer :: bool
  connect_error :: "string option"
  select_raises :: bool
  insert_raises :: bool

datatype db_event = Connect | Select_location | Upsert | Commit | Rollback | Close

datatype outcome = Inserted | Updated | Unchanged

text \<open>
  \<^verbatim>\<open>insert_observation\<close>, lines 168 to 218: success, the store afterwards, what the
  connection was asked to do, and the message chosen from the row count.
\<close>

definition insert_observation ::
  "driver \<Rightarrow> database \<Rightarrow> int \<Rightarrow> observation
     \<Rightarrow> bool \<times> database \<times> db_event list \<times> outcome option" where
  "insert_observation drv db location_id obs =
     (if insert_raises drv then (False, db, [Upsert, Rollback], None)
      else
        case upsert_rows (observations db)
               \<lparr>row_location_id = location_id,
                row_observation_date = observation_date obs,
                row_lst = lst obs,
                row_ndvi = ndvi obs\<rparr> of
          (rows, rowcount) \<Rightarrow>
            (True, db\<lparr>observations := rows\<rparr>, [Upsert, Commit],
             Some (if rowcount = 1 then Inserted
                   else if rowcount = 2 then Updated else Unchanged)))"

text \<open>\<^verbatim>\<open>verify_location_exists\<close>, lines 257 to 283.\<close>

definition verify_location_exists :: "driver \<Rightarrow> database \<Rightarrow> int \<Rightarrow> bool" where
  "verify_location_exists drv db location_id =
     (if select_raises drv then False
      else case find (\<lambda>l. fst l = location_id) (locations db) of
             Some result \<Rightarrow> True
           | None \<Rightarrow> False)"

text \<open>
  The backup files: a CSV file is its lines, a header or a data row. The values of a
  row are the Python values handed to the writer.
\<close>

record csv_row =
  csv_location_id :: int
  csv_observation_date :: pyval
  csv_lst :: pyval
  csv_ndvi :: pyval
  csv_error :: string

datatype csv_line = Header "string list" | Row csv_row

type_synonym backup_files = "string \<rightharpoonup> csv_line list"

definition BACKUP_DIR :: string where
  "BACKUP_DIR = ''data/backup''"

text \<open>
  \<^verbatim>\<open>save_to_csv_backup\<close>, lines 221 to 254. \<open>timestamp\<close> is the clock's
  \<^verbatim>\<open>strftime('%Y%m%d_%H%M%S')\<close>.
\<close>

definition save_to_csv_backup ::
  "backup_files \<Rightarrow> string \<Rightarrow> observation \<Rightarrow> int \<Rightarrow> string option \<Rightarrow> backup_files" where
  "save_to_csv_backup files timestamp obs location_id error_message =
     (let backup_file = BACKUP_DIR @ ''/backup_'' @ timestamp @ ''.csv'';
          fieldnames = [''location_id'', ''observation_date'', ''lst'', ''ndvi'', ''error''];
          file_exists = (files backup_file \<noteq> None);
          old_lines = (case files backup_file of None \<Rightarrow> [] | Some ls \<Rightarrow> ls)
      in files(backup_file \<mapsto>
           old_lines
           @ (if \<not> file_exists then [Header fieldnames] else [])
           @ [Row \<lparr>csv_location_id = location_id,
                    csv_observation_date = observation_date obs,
                    csv_lst = lst obs,
                    csv_ndvi = ndvi obs,
                    csv_error = (case error_message of None \<Rightarrow> [] | Some m \<Rightarrow> m)\<rparr>]))"

text \<open>The message literals of \<^verbatim>\<open>upload_to_mysql.py\<close>, as UTF-8 bytes.\<close>

fun digits :: "nat \<Rightarrow> string" where
  "digits n =
     (if n < 10 then [char_of (48 + n)] else digits (n div 10) @ [char_of (48 + n mod 10)])"

definition str_int :: "int \<Rightarrow> string" where
  "str_int i = (if i < 0 then ''-'' @ digits (nat (- i)) else digits (nat i))"

definition msg_pymysql_missing :: string where
  \<comment> \<open>line 336: pymysql is not installed\<close>
  "msg_pymysql_missing =
     ''pymysql'' @ [CHR 0xE6, CHR 0x9C, CHR 0xAA, CHR 0xE3, CHR 0x82, CHR 0xA4, CHR 0xE3, CHR 0x83, CHR 0xB3,
                    CHR 0xE3, CHR 0x82, CHR 0xB9, CHR 0xE3, CHR 0x83, CHR 0x88, CHR 0xE3, CHR 0x83, CHR 0xBC,
                    CHR 0xE3, CHR 0x83, CHR 0xAB]"

definition msg_location_missing :: "int \<Rightarrow> string" where
  \<comment> \<open>line 346: observation point ID=<id> does not exist\<close>
  "msg_location_missing location_id =
     [CHR 0xE8, CHR 0xA6, CHR 0xB3, CHR 0xE6, CHR 0xB8, CHR 0xAC, CHR 0xE5, CHR 0x9C, CHR 0xB0,
      CHR 0xE7, CHR 0x82, CHR 0xB9] @ ''ID='' @ str_int location_id @ '' ''
     @ [CHR 0xE3, CHR 0x81, CHR 0x8C, CHR 0xE5, CHR 0xAD, CHR 0x98, CHR 0xE5, CHR 0x9C, CHR 0xA8,
        CHR 0xE3, CHR 0x81, CHR 0x97, CHR 0xE3, CHR 0x81, CHR 0xBE, CHR 0xE3, CHR 0x81, CHR 0x9B,
        CHR 0xE3, CHR 0x82, CHR 0x93]"

definition msg_insert_failed :: string where
  \<comment> \<open>line 355: inserting the data failed\<close>
  "msg_insert_failed =
     [CHR 0xE3, CHR 0x83, CHR 0x87, CHR 0xE3, CHR 0x83, CHR 0xBC, CHR 0xE3, CHR 0x82, CHR 0xBF,
      CHR 0xE6, CHR 0x8C, CHR 0xBF, CHR 0xE5, CHR 0x85, CHR 0xA5, CHR 0xE3, CHR 0x81, CHR 0xAB,
      CHR 0xE5, CHR 0xA4, CHR 0xB1, CHR 0xE6, CHR 0x95, CHR 0x97, CHR 0xE3, CHR 0x81, CHR 0x97,
      CHR 0xE3, CHR 0x81, CHR 0xBE, CHR 0xE3, CHR 0x81, CHR 0x97, CHR 0xE3, CHR 0x81, CHR 0x9F]"

section \<open>The ingestor: the run\<close>

text \<open>
  The command line of \<^verbatim>\<open>upload_to_mysql.py\<close>, and what a run leaves behind: the exit
  status of the process, the store, the backup files and the calls made on the store.
\<close>

record args =
  input :: string
  location_id :: int
  backup_only :: bool

record run =
  exit_status :: int
  store :: database
  backups :: backup_files
  db_log :: "db_event list"

text \<open>
  \<^verbatim>\<open>load_json_data\<close>, lines 115 to 134: the document at the path; a missing file raises
  (FileNotFoundError is an OSError).
\<close>

definition load_json_data :: "(string \<rightharpoonup> dict) \<Rightarrow> string \<Rightarrow> py_exn + dict" where
  "load_json_data json_files json_path =
     (case json_files json_path of None \<Rightarrow> Inl OSError | Some json_data \<Rightarrow> Inr json_data)"

text \<open>
  \<^verbatim>\<open>main\<close>, lines 286 to 374. An exception that reaches the outer handler (line 368)
  ends the run with status 1 and no backup; \<^verbatim>\<open>sys.exit(1)\<close> inside the inner handler
  is not caught by it. The connection is closed (line 365) when it was opened.
\<close>

definition main ::
  "driver \<Rightarrow> (string \<rightharpoonup> dict) \<Rightarrow> database \<Rightarrow> backup_files \<Rightarrow> string \<Rightarrow> args \<Rightarrow> run" where
  "main drv json_files db files timestamp a =
     (case load_json_data json_files (input a) of
        Inl e \<Rightarrow> \<lparr>exit_status = 1, store = db, backups = files, db_log = []\<rparr>
      | Inr json_data \<Rightarrow>
     (case extract_observation_data json_data of
        Inl e \<Rightarrow> \<lparr>exit_status = 1, store = db, backups = files, db_log = []\<rparr>
      | Inr obs \<Rightarrow>
          if backup_only a then
            \<lparr>exit_status = 0, store = db,
             backups = save_to_csv_backup files timestamp obs (location_id a) None,
             db_log = []\<rparr>
          else if \<not> port_is_integer drv then
            \<lparr>exit_status = 1, store = db, backups = files, db_log = []\<rparr>
          else if \<not> PYMYSQL_AVAILABLE drv then
            \<lparr>exit_status = 1, store = db,
             backups = save_to_csv_backup files timestamp obs (location_id a)
                         (Some msg_pymysql_missing),
             db_log = []\<rparr>
          else
            (case connect_error drv of
               Some e \<Rightarrow>
                 \<lparr>exit_status = 1, store = db,
                  backups = save_to_csv_backup files timestamp obs (location_id a) (Some e),
                  db_log = [Connect]\<rparr>
             | None \<Rightarrow>
                 if \<not> verify_location_exists drv db (location_id a) then
                   \<lparr>exit_status = 1, store = db,
                    backups = save_to_csv_backup files timestamp obs (location_id a)
                                (Some (msg_location_missing (location_id a))),
                    db_log = [Connect, Select_location, Close]\<rparr>
                 else
                   (case insert_observation drv db (location_id a) obs of
                      (success, db', events, message) \<Rightarrow>
                        if success then
                          \<lparr>exit_status = 0, store = db', backups = files,
                           db_log = [Connect, Select_location] @ events @ [Close]\<rparr>
                        else
                          \<lparr>exit_status = 1, store = db',
                           backups = save_to_csv_backup files timestamp obs (location_id a)
                                       (Some msg_insert_failed),
                           db_log = [Connect, Select_location] @ events @ [Close]\<rparr>))))"

section \<open>Concrete inputs\<close>

text \<open>
  An environment with every library importable and credentials set, whose remote
  service finds no product; the same without credentials; and the same without the
  client library.
\<close>

definition env_remote :: environment where
  "env_remote =
     \<lparr>NUMPY_AVAILABLE = True, H5PY_AVAILABLE = True, GPORTAL_AVAILABLE = True,
      GPORTAL_USERNAME = ''user'', GPORTAL_PASSWORD = ''secret'', temp_writable = True,
      exn_text = (\<lambda>e. ''exception''), random_samples = (\<lambda>m s k. m),
      gportal = (\<lambda>bbox d p. No_products)\<rparr>"



section \<open>The data source tag and the mock substitution\<close>

text \<open>
  The tag as the specification words it: \<open>mock\<close> when mock mode was requested or the
  mock generator stood in for a missing client library, \<open>remote\<close> otherwise.
\<close>

definition spec_data_source :: "environment \<Rightarrow> bool \<Rightarrow> string" where
  "spec_data_source env use_mock =
     (if use_mock \<or> \<not> GPORTAL_AVAILABLE env then ''mock'' else ''remote'')"


section \<open>Reading a result\<close>

text \<open>The row and the column that an extraction result reports.\<close>

definition pixel_index :: "dict \<Rightarrow> (nat \<times> nat) option" where
  "pixel_index result =
     (case map_of result ''pixel_location'' of
        Some (VDict location) \<Rightarrow>
          (case (map_of location ''row'', map_of location ''col'') of
             (Some (VInt i), Some (VInt j)) \<Rightarrow> Some (nat i, nat j)
           | _ \<Rightarrow> None)
      | _ \<Rightarrow> None)"

text \<open>
  The window as the specification words it: the cells of the data grid at most two
  rows and two columns away from the matched pixel, nothing added beyond the edges,
  not-a-number cells left out.
\<close>

definition neighbourhood :: "fnum ndarray \<Rightarrow> nat \<times> nat \<Rightarrow> real list" where
  "neighbourhood d idx =
     (case idx of (i, j) \<Rightarrow>
        drop_nan [cell d i' j'.
                    i' \<leftarrow> [0..<nrows d], \<bar>int i' - int i\<bar> \<le> 2,
                    j' \<leftarrow> [0..<ncols d], \<bar>int j' - int j\<bar> \<le> 2])"

text \<open>
  A raster of two rows and two columns over the unit square, with one not-a-number
  cell, and a raster of a single cell that is not a number.
\<close>

definition small_latitude :: "real ndarray" where
  "small_latitude = \<lparr>nrows = 2, ncols = 2, cells = [0, 0, 1, 1]\<rparr>"

definition small_longitude :: "real ndarray" where
  "small_longitude = \<lparr>nrows = 2, ncols = 2, cells = [0, 1, 0, 1]\<rparr>"

definition small_dataset :: image_dataset where
  "small_dataset =
     \<lparr>data = \<lparr>nrows = 2, ncols = 2, cells = [Fin 290, NaN, Fin 300, Fin 310]\<rparr>,
      description = ''Land Surface Temperature'',
      units = ''Kelvin''\<rparr>"

definition small_raster :: hdf5_file where
  "small_raster =
     \<lparr>image_data = [(''LST'', small_dataset)],
      latitude = Some small_latitude,
      longitude = Some small_longitude\<rparr>"

definition blank_dataset :: image_dataset where
  "blank_dataset =
     \<lparr>data = \<lparr>nrows = 1, ncols = 1, cells = [NaN]\<rparr>,
      description = ''Normalized Difference Vegetation Index'',
      units = ''dimensionless''\<rparr>"

definition blank_raster :: hdf5_file where
  "blank_raster =
     \<lparr>image_data = [(''NDVI'', blank_dataset)],
      latitude = Some \<lparr>nrows = 1, ncols = 1, cells = [0]\<rparr>,
      longitude = Some \<lparr>nrows = 1, ncols = 1, cells = [0]\<rparr>\<rparr>"

definition small_fs :: filesystem where
  "small_fs = [''data/temp/small.h5'' \<mapsto> Hdf5 small_raster,
               ''data/temp/blank.h5'' \<mapsto> Hdf5 blank_raster]"

section \<open>The ingestor as the specification words it\<close>

text \<open>
  The field that the specification asks of the extraction step: null for an error
  payload, the named number rounded to the given count of decimals otherwise, and
  null when the payload has no such number.
\<close>

definition spec_field :: "dict \<Rightarrow> string \<Rightarrow> nat \<Rightarrow> pyval" where
  "spec_field payload field ndigits =
     (if has_key ''error'' payload then VNone
      else case map_of payload field of
             Some (VFloat x) \<Rightarrow> VFloat (round_float x ndigits)
           | _ \<Rightarrow> VNone)"

text \<open>
  The rows of the observations table under a key, the rows under every other key, and
  the table's UNIQUE constraint: no two rows with a date share their key.
\<close>

definition key_rows :: "obs_row list \<Rightarrow> int \<Rightarrow> pyval \<Rightarrow> obs_row list" where
  "key_rows rows loc d =
     filter (\<lambda>r. row_location_id r = loc \<and> row_observation_date r = d) rows"

definition other_rows :: "obs_row list \<Rightarrow> int \<Rightarrow> pyval \<Rightarrow> obs_row list" where
  "other_rows rows loc d =
     filter (\<lambda>r. \<not> (row_location_id r = loc \<and> row_observation_date r = d)) rows"

definition unique_constraint :: "obs_row list \<Rightarrow> bool" where
  "unique_constraint rows =
     distinct (map (\<lambda>r. (row_location_id r, row_observation_date r))
                   (filter (\<lambda>r. row_observation_date r \<noteq> VNone) rows))"

text \<open>The path of the backup file of a run, and its data rows.\<close>

definition backup_path :: "string \<Rightarrow> string" where
  "backup_path timestamp = BACKUP_DIR @ ''/backup_'' @ timestamp @ ''.csv''"

definition data_rows :: "backup_files \<Rightarrow> string \<Rightarrow> csv_row list" where
  "data_rows files path =
     (case files path of
        None \<Rightarrow> []
      | Some ls \<Rightarrow> concat (map (\<lambda>l. case l of Row r \<Rightarrow> [r] | Header h \<Rightarrow> []) ls))"

text \<open>
  A record as the collector writes it, with a Kelvin observation and a failed
  vegetation index; the documents on disk; an observation; a store with one location
  and one row; a driver that works; and the command lines of three runs.
\<close>

definition sample_lst :: dict where
  "sample_lst =
     [(''dataset'', VStr ''LST''),
      (''pixel_value'', VFloat (Fin 291.5049)),
      (''pixel_location'',
         VDict [(''row'', VInt 49), (''col'', VInt 50),
                (''latitude'', VFloat (Fin 32.8)),
                (''longitude'', VFloat (Fin 130.7))]),
      (''window_statistics'', VNone),
      (''pixel_value_celsius'', VFloat (Fin 18.3549))]"

definition sample_ndvi :: dict where
  "sample_ndvi = [(''error'', VStr msg_file_failed)]"

definition sample_observations :: dict where
  "sample_observations = [(''lst'', VDict sample_lst), (''ndvi'', VDict sample_ndvi)]"

definition sample_record :: dict where
  "sample_record =
     [(''location'',
         VDict [(''latitude'', VFloat (Fin 32.8032)),
                (''longitude'', VFloat (Fin 130.7075)),
                (''name'', VStr ''Observation Point'')]),
      (''observation_date'', VStr ''2026-01-08''),
      (''processing_time'', VStr ''2026-01-09T10:00:00''),
      (''data_source'', VStr ''mock''),
      (''observations'', VDict sample_observations)]"

definition sample_json_files :: "string \<rightharpoonup> dict" where
  "sample_json_files = [''data.json'' \<mapsto> sample_record]"

definition sample_observation :: observation where
  "sample_observation =
     \<lparr>observation_date = VStr ''2026-01-08'', lst = VFloat (Fin 18.35), ndvi = VNone\<rparr>"

definition later_observation :: observation where
  "later_observation =
     \<lparr>observation_date = VStr ''2026-01-08'', lst = VFloat (Fin 19.02),
      ndvi = VFloat (Fin 0.731)\<rparr>"

definition sample_db :: database where
  "sample_db =
     \<lparr>locations = [(1, ''Kumamoto'')],
      observations =
        [\<lparr>row_location_id = 1, row_observation_date = VStr ''2026-01-07'',
          row_lst = VFloat (Fin 17.2), row_ndvi = VFloat (Fin 0.702)\<rparr>]\<rparr>"

definition good_driver :: driver where
  "good_driver =
     \<lparr>PYMYSQL_AVAILABLE = True, port_is_integer = True, connect_error = None,
      select_raises = False, insert_raises = False\<rparr>"

definition upload_args :: args where
  "upload_args = \<lparr>input = ''data.json'', location_id = 1, backup_only = False\<rparr>"

definition unknown_location_args :: args where
  "unknown_location_args = \<lparr>input = ''data.json'', location_id = 7, backup_only = False\<rparr>"

definition backup_only_args :: args where
  "backup_only_args = \<lparr>input = ''data.json'', location_id = 1, backup_only = True\<rparr>"

text \<open>Backup files in which the file of the second 2026-01-09 10:00:00 already exists.\<close>

definition earlier_row :: csv_row where
  "earlier_row =
     \<lparr>csv_location_id = 2, csv_observation_date = VStr ''2026-01-08'',
      csv_lst = VFloat (Fin 12.5), csv_ndvi = VNone, csv_error = []\<rparr>"

definition used_backups :: backup_files where
  "used_backups =
     [backup_path ''20260109_100000'' \<mapsto>
        [Header [''location_id'', ''observation_date'', ''lst'', ''ndvi'', ''error''],
         Row earlier_row]]"

section \<open>The data source tag\<close>

lemma map_of_set_observation:
  "key \<noteq> ''observations'' \<Longrightarrow> map_of (set_observation result k v) key = map_of result key"
  by (simp add: set_observation_def update_conv' split: option.splits pyval.splits)

lemma collect_product_keeps:
  "key \<noteq> ''observations'' \<Longrightarrow>
   map_of (fst (collect_product env lat lon d m p st)) key = map_of (fst st) key"
  by (cases st)
     (auto simp add: collect_product_def map_of_set_observation Let_def
           split: prod.splits option.splits)

lemma data_source_collect:
  "map_of (fst (collect_satellite_data env fs now lat lon d m)) ''data_source''
     = Some (VStr (if m then ''mock'' else ''gportal''))"
  by (simp add: collect_satellite_data_def collect_product_keeps)

text \<open>
  C1, as amended. The record's \<open>data_source\<close> is \<open>mock\<close> when mock mode was requested,
  and \<open>gportal\<close> when it was not requested and the client library is importable.
\<close>

theorem data_source_tag:
  assumes "use_mock \<or> GPORTAL_AVAILABLE env"
  shows "map_of (fst (collect_satellite_data env fs now lat lon target_date use_mock))
           ''data_source''
         = Some (VStr (if use_mock then ''mock'' else ''gportal''))"
  by (rule data_source_collect)

theorem data_source_tag_witness:
  "(False \<or> GPORTAL_AVAILABLE env_remote)
   \<and> map_of (fst (collect_satellite_data env_remote Map.empty ''2026-01-09T10:00:00''
                    32.8032 130.7075 ''2026-01-08'' False)) ''data_source''
       = Some (VStr ''gportal'')"
proof -
  have h: "False \<or> GPORTAL_AVAILABLE env_remote"
    by (simp add: env_remote_def)
  from data_source_tag [OF h] h show ?thesis
    by simp
qed

text \<open>
  C1 as stated fails: with the client library importable and mock mode not requested,
  the tag is not the \<open>remote\<close> of the specification.
\<close>

theorem data_source_tag_counterexample:
  "map_of (fst (collect_satellite_data env_remote Map.empty ''2026-01-09T10:00:00''
                  32.8032 130.7075 ''2026-01-08'' False)) ''data_source''
     \<noteq> Some (VStr (spec_data_source env_remote False))"
  by (simp add: data_source_collect spec_data_source_def env_remote_def)
section \<open>Automatic substitution of the mock generator\<close>













section \<open>Arrays: indexing and the first minimum\<close>






section \<open>The window\<close>

lemma concat_map_if:
  "concat (map (\<lambda>x. if P x then g x else []) xs) = concat (map g (filter P xs))"
  by (induction xs) simp_all

lemma filter_upt_interval:
  "filter (\<lambda>x. a \<le> x \<and> x < b) [0..<n] = [a..<min b n]"
proof (induction n)
  case 0
  then show ?case by simp
next
  case (Suc n)
  show ?case
  proof (cases "a \<le> n \<and> n < b")
    case True
    then have "min b (Suc n) = Suc n" and "min b n = n"
      by simp_all
    with Suc True show ?thesis by simp
  next
    case False
    then have "[a..<min b (Suc n)] = [a..<min b n]"
      by (auto simp add: min_def)
    with Suc False show ?thesis by auto
  qed
qed

lemma upt_min_left: "[min a n..<min b n] = [a..<min b n]"
  by (cases "a \<le> n") (simp_all add: min_def)

lemma near_interval:
  "[min (nat (max 0 (int i - 2))) n..<min (nat (min (int n) (int i + 3))) n]
   = filter (\<lambda>x. \<bar>int x - int i\<bar> \<le> 2) [0..<n]"
proof -
  have "filter (\<lambda>x. \<bar>int x - int i\<bar> \<le> 2) [0..<n]
        = filter (\<lambda>x. nat (max 0 (int i - 2)) \<le> x \<and> x < nat (min (int n) (int i + 3))) [0..<n]"
    by (rule filter_cong) auto
  then show ?thesis
    by (simp only: filter_upt_interval upt_min_left)
qed

lemma window_bounds_eq:
  "window_bounds (r, c) (i, j)
   = ((nat (max 0 (int i - 2)), nat (min (int r) (int i + 3))),
      (nat (max 0 (int j - 2)), nat (min (int c) (int j + 3))))"
  by (simp add: window_bounds_def window_size_def add.commute)

lemma window_is_neighbourhood:
  "window_data_clean d idx = neighbourhood d idx"
proof (cases idx)
  case (Pair i j)
  have "window_data_clean d (i, j)
        = drop_nan (concat (map (\<lambda>i'. map (\<lambda>j'. cell d i' j')
                                        (filter (\<lambda>x. \<bar>int x - int j\<bar> \<le> 2) [0..<ncols d]))
                                (filter (\<lambda>x. \<bar>int x - int i\<bar> \<le> 2) [0..<nrows d])))"
    by (simp only: window_data_clean_def window_bounds_eq prod.case slice2_def near_interval)
  also have "\<dots> = neighbourhood d (i, j)"
    by (simp add: neighbourhood_def concat_map_if)
  finally show ?thesis
    using Pair by simp
qed


section \<open>What a successful extraction returns\<close>

lemma extract_success:
  assumes "\<not> has_key ''error'' (extract_pixel_value env fs path lat lon name)"
  obtains f ds la lo dgrid k idx pv a b where
    "fs path = Some (Hdf5 f)" and "map_of (image_data f) name = Some ds"
    and "latitude f = Some la" and "longitude f = Some lo"
    and "np_distances la lo lat lon = Inr dgrid" and "np_argmin dgrid = Inr k"
    and "idx = unravel_index k (nrows dgrid, ncols dgrid)"
    and "getitem2 (data ds) idx = Inr pv"
    and "getitem2 la idx = Inr a" and "getitem2 lo idx = Inr b"
    and "extract_pixel_value env fs path lat lon name
         = result_dict name pv (if name = ''LST'' then Some (fsub pv 273.15) else None)
             idx a b (window_stats name (window_data_clean (data ds) idx))"
  using assms
  by (auto simp add: extract_pixel_value_def extract_body_def then_do_def h5py_File_def
        h5_get_def has_key_def Let_def
      split: if_splits sum.splits option.splits file_content.splits)

section \<open>The window around the matched pixel\<close>


lemma set_drop_nan: "set (drop_nan xs) = {x. Fin x \<in> set xs}"
proof (induction xs)
  case Nil
  then show ?case by simp
next
  case (Cons y ys)
  then show ?case by (cases y) auto
qed

lemma set_neighbourhood:
  "set (neighbourhood d (i, j))
   = {x. \<exists>i' < nrows d. \<exists>j' < ncols d.
            \<bar>int i' - int i\<bar> \<le> 2 \<and> \<bar>int j' - int j\<bar> \<le> 2 \<and> cell d i' j' = Fin x}"
  apply (auto simp add: neighbourhood_def set_drop_nan)
   apply blast
  apply force
  done






lemmas small_defs = small_fs_def small_raster_def blank_raster_def small_dataset_def
  blank_dataset_def small_latitude_def small_longitude_def env_remote_def

lemmas extract_defs = extract_pixel_value_def extract_body_def then_do_def h5py_File_def
  h5_get_def np_distances_def broadcast_dim_def tabulate2_def bcell_def cell_def
  pixel_distance_def np_argmin_def unravel_index_def getitem2_def result_dict_def
  window_stats_def window_data_clean_def window_bounds_def window_size_def slice2_def
  np_mean_def np_std_def np_min_def np_max_def



text \<open>The blank raster: the only cell is matched, and it is not a number.\<close>

lemma blank_extraction:
  "extract_pixel_value env_remote small_fs ''data/temp/blank.h5'' 0 0 ''NDVI''
   = [(''dataset'', VStr ''NDVI''), (''pixel_value'', VFloat NaN),
      (''pixel_location'',
         VDict [(''row'', VInt 0), (''col'', VInt 0),
                (''latitude'', VFloat (Fin 0)), (''longitude'', VFloat (Fin 0))]),
      (''window_statistics'', VNone)]"
  by (simp add: small_defs extract_defs Let_def)


section \<open>A window without numbers\<close>

lemma pixel_index_result_dict:
  "pixel_index (result_dict name pv c idx a b stats) = Some idx"
  by (cases idx) (simp add: pixel_index_def result_dict_def)

lemma window_statistics_result_dict:
  "map_of (result_dict name pv c idx a b stats) ''window_statistics'' = Some stats"
  by (simp add: result_dict_def)

text \<open>
  A successful extraction from a known file and dataset, with the reported pixel
  index: the statistics entry is computed from the neighbourhood of that pixel.
\<close>

lemma extract_window_statistics:
  assumes "\<not> has_key ''error'' (extract_pixel_value env fs path lat lon name)"
    and "fs path = Some (Hdf5 f)" and "map_of (image_data f) name = Some ds"
    and "pixel_index (extract_pixel_value env fs path lat lon name) = Some idx"
  shows "map_of (extract_pixel_value env fs path lat lon name) ''window_statistics''
         = Some (window_stats name (neighbourhood (data ds) idx))"
proof -
  from assms(1) obtain f' ds' la lo dgrid k idx' pv a b where
    "fs path = Some (Hdf5 f')" and "map_of (image_data f') name = Some ds'"
    and "latitude f' = Some la" and "longitude f' = Some lo"
    and "np_distances la lo lat lon = Inr dgrid" and "np_argmin dgrid = Inr k"
    and "idx' = unravel_index k (nrows dgrid, ncols dgrid)"
    and "getitem2 (data ds') idx' = Inr pv"
    and "getitem2 la idx' = Inr a" and "getitem2 lo idx' = Inr b"
    and res: "extract_pixel_value env fs path lat lon name
         = result_dict name pv (if name = ''LST'' then Some (fsub pv 273.15) else None)
             idx' a b (window_stats name (window_data_clean (data ds') idx'))"
    by (rule extract_success)
  with assms(2,3) have same: "f' = f" "ds' = ds"
    by simp_all
  from assms(4) have "idx' = idx"
    by (simp add: res pixel_index_result_dict)
  with same show ?thesis
    by (simp add: res window_statistics_result_dict window_is_neighbourhood)
qed

lemma neighbourhood_empty:
  assumes "\<forall>i' < nrows d. \<forall>j' < ncols d.
             \<bar>int i' - int i\<bar> \<le> 2 \<and> \<bar>int j' - int j\<bar> \<le> 2 \<longrightarrow> isnan (cell d i' j')"
  shows "neighbourhood d (i, j) = []"
proof -
  have "set (neighbourhood d (i, j)) = {}"
    unfolding set_neighbourhood using assms by fastforce
  then show ?thesis by simp
qed

text \<open>
  C3, as amended. For every successful extraction whose clipped window holds only
  not-a-number cells, the result has the key \<open>window_statistics\<close> and its value is
  \<open>None\<close>: no statistic is reported.
\<close>

theorem empty_window_statistics:
  assumes "\<not> has_key ''error'' (extract_pixel_value env fs path lat lon name)"
    and "fs path = Some (Hdf5 f)" and "map_of (image_data f) name = Some ds"
    and "pixel_index (extract_pixel_value env fs path lat lon name) = Some (i, j)"
    and "\<forall>i' < nrows (data ds). \<forall>j' < ncols (data ds).
           \<bar>int i' - int i\<bar> \<le> 2 \<and> \<bar>int j' - int j\<bar> \<le> 2 \<longrightarrow> isnan (cell (data ds) i' j')"
  shows "map_of (extract_pixel_value env fs path lat lon name) ''window_statistics''
         = Some VNone"
  using extract_window_statistics [OF assms(1-4)] neighbourhood_empty [OF assms(5)]
  by (simp add: window_stats_def)

theorem empty_window_statistics_witness:
  "\<not> has_key ''error''
       (extract_pixel_value env_remote small_fs ''data/temp/blank.h5'' 0 0 ''NDVI'')
   \<and> small_fs ''data/temp/blank.h5'' = Some (Hdf5 blank_raster)
   \<and> map_of (image_data blank_raster) ''NDVI'' = Some blank_dataset
   \<and> pixel_index
         (extract_pixel_value env_remote small_fs ''data/temp/blank.h5'' 0 0 ''NDVI'')
       = Some (0, 0)
   \<and> nrows (data blank_dataset) = 1 \<and> ncols (data blank_dataset) = 1
   \<and> isnan (cell (data blank_dataset) 0 0)
   \<and> map_of (extract_pixel_value env_remote small_fs ''data/temp/blank.h5'' 0 0 ''NDVI'')
         ''window_statistics'' = Some VNone"
proof -
  have ok: "\<not> has_key ''error''
              (extract_pixel_value env_remote small_fs ''data/temp/blank.h5'' 0 0 ''NDVI'')"
    unfolding blank_extraction by (simp add: has_key_def)
  have fl: "small_fs ''data/temp/blank.h5'' = Some (Hdf5 blank_raster)"
    by (simp add: small_fs_def)
  have ds: "map_of (image_data blank_raster) ''NDVI'' = Some blank_dataset"
    by (simp add: blank_raster_def)
  have idx: "pixel_index
               (extract_pixel_value env_remote small_fs ''data/temp/blank.h5'' 0 0 ''NDVI'')
             = Some (0, 0)"
    unfolding blank_extraction by (simp add: pixel_index_def)
  have shape: "nrows (data blank_dataset) = 1" "ncols (data blank_dataset) = 1"
    and cell0: "isnan (cell (data blank_dataset) 0 0)"
    by (simp_all add: cell_def blank_dataset_def)
  have nan: "\<forall>i' < nrows (data blank_dataset). \<forall>j' < ncols (data blank_dataset).
               \<bar>int i' - int 0\<bar> \<le> 2 \<and> \<bar>int j' - int 0\<bar> \<le> 2 \<longrightarrow>
               isnan (cell (data blank_dataset) i' j')"
    using cell0 by (simp add: shape)
  from empty_window_statistics [OF ok fl ds idx nan] ok fl ds idx shape cell0
  show ?thesis
    by blast
qed

text \<open>
  C3 as stated fails: on the blank raster the extraction succeeds, the window holds no
  number, and the key \<open>window_statistics\<close> is present.
\<close>

theorem empty_window_statistics_counterexample:
  "\<not> has_key ''error''
       (extract_pixel_value env_remote small_fs ''data/temp/blank.h5'' 0 0 ''NDVI'')
   \<and> neighbourhood (data blank_dataset) (0, 0) = []
   \<and> has_key ''window_statistics''
       (extract_pixel_value env_remote small_fs ''data/temp/blank.h5'' 0 0 ''NDVI'')
   \<and> map_of (extract_pixel_value env_remote small_fs ''data/temp/blank.h5'' 0 0 ''NDVI'')
         ''window_statistics'' = Some VNone"
  unfolding blank_extraction
  by (simp add: has_key_def neighbourhood_def cell_def blank_dataset_def)


section \<open>The statistics of the window\<close>











section \<open>The nearest pixel\<close>












section \<open>The extraction step of the ingestor\<close>

lemma round_half_even_near: "\<bar>of_int (round_half_even x) - x\<bar> \<le> 1 / 2"
proof -
  have "of_int \<lfloor>x\<rfloor> \<le> x" and "x < of_int \<lfloor>x\<rfloor> + 1"
    by linarith+
  then show ?thesis
    by (auto simp add: round_half_even_def Let_def)
qed

lemma round_float_near:
  "\<exists>k :: int. round_float (Fin x) n = Fin (of_int k / 10 ^ n)
              \<and> \<bar>of_int k / 10 ^ n - x\<bar> \<le> 1 / (2 * 10 ^ n)"
proof -
  define k where "k = round_half_even (x * 10 ^ n)"
  have p: "(0 :: real) < 10 ^ n"
    by simp
  have "\<bar>of_int k / 10 ^ n - x\<bar> = \<bar>of_int k - x * 10 ^ n\<bar> / 10 ^ n"
    using p by (simp add: field_simps abs_divide)
  also have "\<dots> \<le> (1 / 2) / 10 ^ n"
    using round_half_even_near [of "x * 10 ^ n"] p
    by (intro divide_right_mono) (simp_all add: k_def)
  finally have "\<bar>of_int k / 10 ^ n - x\<bar> \<le> 1 / (2 * 10 ^ n)"
    by simp
  then show ?thesis
    by (intro exI [of _ k]) (simp add: k_def)
qed

lemma product_value_payload:
  assumes "map_of json_data ''observations'' = Some (VDict obs)"
    and "map_of obs key = Some (VDict payload)"
    and "has_key ''error'' payload \<or> map_of payload field = None
         \<or> (\<exists>x. map_of payload field = Some (VFloat x))"
  shows "product_value json_data key field ndigits = Inr (spec_field payload field ndigits)"
  using assms
  by (auto simp add: product_value_def in_observations_def then_do_def has_key_def
        spec_field_def)

text \<open>
  C8. From a record with an observation date and the two product payloads, each an
  error payload or a payload whose value (if any) is a float, the extraction step
  gives the date, the Celsius value rounded to 2 decimals and the vegetation index
  rounded to 3 decimals, with null for an error payload; it does not raise. Rounding
  to \<open>n\<close> decimals gives a multiple of \<open>10\<^sup>-\<^sup>n\<close> at most half a unit of that place
  away.
\<close>

theorem extraction_step:
  assumes "map_of json_data ''observation_date'' = Some d"
    and "map_of json_data ''observations'' = Some (VDict obs)"
    and "map_of obs ''lst'' = Some (VDict lst_data)"
    and "map_of obs ''ndvi'' = Some (VDict ndvi_data)"
    and "has_key ''error'' lst_data \<or> map_of lst_data ''pixel_value_celsius'' = None
         \<or> (\<exists>c. map_of lst_data ''pixel_value_celsius'' = Some (VFloat c))"
    and "has_key ''error'' ndvi_data \<or> map_of ndvi_data ''pixel_value'' = None
         \<or> (\<exists>v. map_of ndvi_data ''pixel_value'' = Some (VFloat v))"
  shows "extract_observation_data json_data
           = Inr \<lparr>observation_date = d,
                  lst = spec_field lst_data ''pixel_value_celsius'' 2,
                  ndvi = spec_field ndvi_data ''pixel_value'' 3\<rparr>
         \<and> (\<forall>x n. \<exists>k :: int. round_float (Fin x) n = Fin (of_int k / 10 ^ n)
                             \<and> \<bar>of_int k / 10 ^ n - x\<bar> \<le> 1 / (2 * 10 ^ n))"
proof
  show "extract_observation_data json_data
           = Inr \<lparr>observation_date = d,
                  lst = spec_field lst_data ''pixel_value_celsius'' 2,
                  ndvi = spec_field ndvi_data ''pixel_value'' 3\<rparr>"
    by (simp add: extract_observation_data_def then_do_def assms(1)
          product_value_payload [OF assms(2,3,5)] product_value_payload [OF assms(2,4,6)])
  show "\<forall>x n. \<exists>k :: int. round_float (Fin x) n = Fin (of_int k / 10 ^ n)
                          \<and> \<bar>of_int k / 10 ^ n - x\<bar> \<le> 1 / (2 * 10 ^ n)"
    using round_float_near by blast
qed

lemma sample_extraction:
  "extract_observation_data sample_record = Inr sample_observation"
  by (simp add: extract_observation_data_def product_value_def in_observations_def
        then_do_def has_key_def sample_record_def sample_observations_def sample_lst_def
        sample_ndvi_def sample_observation_def round_half_even_def Let_def)


theorem extraction_step_witness:
  "map_of sample_record ''observation_date'' = Some (VStr ''2026-01-08'')
   \<and> map_of sample_record ''observations'' = Some (VDict sample_observations)
   \<and> map_of sample_observations ''lst'' = Some (VDict sample_lst)
   \<and> map_of sample_observations ''ndvi'' = Some (VDict sample_ndvi)
   \<and> map_of sample_lst ''pixel_value_celsius'' = Some (VFloat (Fin 18.3549))
   \<and> has_key ''error'' sample_ndvi
   \<and> extract_observation_data sample_record
       = Inr \<lparr>observation_date = VStr ''2026-01-08'', lst = VFloat (Fin 18.35),
              ndvi = VNone\<rparr>"
proof -
  have d: "map_of sample_record ''observation_date'' = Some (VStr ''2026-01-08'')"
    and obs: "map_of sample_record ''observations'' = Some (VDict sample_observations)"
    by (simp_all add: sample_record_def)
  have l: "map_of sample_observations ''lst'' = Some (VDict sample_lst)"
    and n: "map_of sample_observations ''ndvi'' = Some (VDict sample_ndvi)"
    by (simp_all add: sample_observations_def)
  have c: "map_of sample_lst ''pixel_value_celsius'' = Some (VFloat (Fin 18.3549))"
    by (simp add: sample_lst_def)
  have e: "has_key ''error'' sample_ndvi"
    by (simp add: sample_ndvi_def has_key_def)
  have ne: "\<not> has_key ''error'' sample_lst"
    by (simp add: sample_lst_def has_key_def)
  have hl: "has_key ''error'' sample_lst \<or> map_of sample_lst ''pixel_value_celsius'' = None
            \<or> (\<exists>c. map_of sample_lst ''pixel_value_celsius'' = Some (VFloat c))"
    using c by simp
  have hn: "has_key ''error'' sample_ndvi \<or> map_of sample_ndvi ''pixel_value'' = None
            \<or> (\<exists>v. map_of sample_ndvi ''pixel_value'' = Some (VFloat v))"
    using e by simp
  have r: "spec_field sample_lst ''pixel_value_celsius'' 2 = VFloat (Fin 18.35)"
    using ne c by (simp add: spec_field_def round_half_even_def Let_def)
  have "extract_observation_data sample_record
        = Inr \<lparr>observation_date = VStr ''2026-01-08'',
               lst = spec_field sample_lst ''pixel_value_celsius'' 2,
               ndvi = spec_field sample_ndvi ''pixel_value'' 3\<rparr>"
    using extraction_step [OF d obs l n hl hn] by blast
  moreover have "spec_field sample_ndvi ''pixel_value'' 3 = VNone"
    using e by (simp add: spec_field_def)
  ultimately have "extract_observation_data sample_record
        = Inr \<lparr>observation_date = VStr ''2026-01-08'', lst = VFloat (Fin 18.35),
               ndvi = VNone\<rparr>"
    by (simp only: r)
  with d obs l n c e show ?thesis
    by blast
qed

section \<open>The upsert\<close>

lemma unique_key_rows:
  assumes "unique_constraint rows" and "d \<noteq> VNone"
  shows "length (key_rows rows loc d) \<le> 1"
  using assms
proof (induction rows)
  case Nil
  then show ?case by (simp add: key_rows_def)
next
  case (Cons r rs)
  from Cons.prems have u: "unique_constraint rs"
    by (simp add: unique_constraint_def split: if_splits)
  show ?case
  proof (cases "row_location_id r = loc \<and> row_observation_date r = d")
    case True
    with Cons.prems have "(loc, d) \<notin> (\<lambda>r. (row_location_id r, row_observation_date r))
                            ` {x \<in> set rs. row_observation_date x \<noteq> VNone}"
      by (simp add: unique_constraint_def)
    with Cons.prems(2) have "key_rows rs loc d = []"
      by (auto simp add: key_rows_def filter_empty_conv)
    with True show ?thesis
      by (simp add: key_rows_def)
  next
    case False
    with Cons.IH [OF u Cons.prems(2)] show ?thesis
      by (auto simp add: key_rows_def)
  qed
qed

lemma upsert_key_rows:
  assumes "length (key_rows rows (row_location_id new) (row_observation_date new)) \<le> 1"
    and "row_observation_date new \<noteq> VNone"
  shows "key_rows (fst (upsert_rows rows new)) (row_location_id new) (row_observation_date new)
         = [new]"
  using assms
proof (induction rows)
  case Nil
  then show ?case by (simp add: key_rows_def)
next
  case (Cons r rs)
  show ?case
  proof (cases "same_key r new")
    case True
    with Cons.prems have "key_rows rs (row_location_id new) (row_observation_date new) = []"
      by (simp add: key_rows_def same_key_def)
    with True show ?thesis
      by (simp add: key_rows_def same_key_def)
  next
    case False
    with Cons.prems(2) have nk: "\<not> (row_location_id r = row_location_id new
                                    \<and> row_observation_date r = row_observation_date new)"
      by (simp add: same_key_def)
    with Cons.prems(1)
    have "length (key_rows rs (row_location_id new) (row_observation_date new)) \<le> 1"
      by (simp add: key_rows_def)
    from Cons.IH [OF this Cons.prems(2)] False nk show ?thesis
      by (simp add: key_rows_def case_prod_unfold)
  qed
qed

lemma upsert_other_rows:
  assumes "row_observation_date new \<noteq> VNone"
  shows "other_rows (fst (upsert_rows rows new)) (row_location_id new) (row_observation_date new)
         = other_rows rows (row_location_id new) (row_observation_date new)"
  using assms
  by (induction rows) (auto simp add: other_rows_def same_key_def case_prod_unfold)

lemma insert_observation_ok:
  assumes "\<not> insert_raises drv"
  shows "insert_observation drv db loc obs
         = (True,
            db\<lparr>observations :=
                 fst (upsert_rows (observations db)
                        \<lparr>row_location_id = loc, row_observation_date = observation_date obs,
                         row_lst = lst obs, row_ndvi = ndvi obs\<rparr>)\<rparr>,
            [Upsert, Commit],
            Some (let n = snd (upsert_rows (observations db)
                        \<lparr>row_location_id = loc, row_observation_date = observation_date obs,
                         row_lst = lst obs, row_ndvi = ndvi obs\<rparr>)
                  in if n = 1 then Inserted else if n = 2 then Updated else Unchanged))"
  using assms by (simp add: insert_observation_def Let_def split: prod.splits)

text \<open>
  C4. In a store that satisfies its UNIQUE constraint, two calls of
  \<open>insert_observation\<close> with the same location and the same date both succeed (when
  the server raises no error), and afterwards the store holds exactly one row under
  that key, with the values of the second call; the rows under other keys and the
  locations are as before.
\<close>

theorem upsert_twice:
  assumes "\<not> insert_raises drv"
    and "unique_constraint (observations db)"
    and "observation_date first_obs = d" and "observation_date second_obs = d"
    and "d \<noteq> VNone"
    and "insert_observation drv db loc first_obs = (ok1, db1, events1, message1)"
    and "insert_observation drv db1 loc second_obs = (ok2, db2, events2, message2)"
  shows "ok1 \<and> ok2
       \<and> key_rows (observations db2) loc d
         = [\<lparr>row_location_id = loc, row_observation_date = d,
             row_lst = lst second_obs, row_ndvi = ndvi second_obs\<rparr>]
       \<and> other_rows (observations db2) loc d = other_rows (observations db) loc d
       \<and> locations db2 = locations db"
proof -
  define new1 where "new1 = \<lparr>row_location_id = loc, row_observation_date = d,
                              row_lst = lst first_obs, row_ndvi = ndvi first_obs\<rparr>"
  define new2 where "new2 = \<lparr>row_location_id = loc, row_observation_date = d,
                              row_lst = lst second_obs, row_ndvi = ndvi second_obs\<rparr>"
  have k1: "row_location_id new1 = loc" "row_observation_date new1 = d"
    and k2: "row_location_id new2 = loc" "row_observation_date new2 = d"
    by (simp_all add: new1_def new2_def)
  from assms(1,3,6) have ok1: "ok1"
    and db1: "db1 = db\<lparr>observations := fst (upsert_rows (observations db) new1)\<rparr>"
    by (simp_all add: insert_observation_ok new1_def)
  from assms(1,4,7) have ok2: "ok2"
    and db2: "db2 = db1\<lparr>observations := fst (upsert_rows (observations db1) new2)\<rparr>"
    by (simp_all add: insert_observation_ok new2_def)
  have "length (key_rows (observations db) loc d) \<le> 1"
    by (rule unique_key_rows [OF assms(2,5)])
  then have "key_rows (observations db1) loc d = [new1]"
    using upsert_key_rows [of "observations db" new1] assms(5) by (simp add: db1 k1)
  then have "length (key_rows (observations db1) loc d) \<le> 1"
    by simp
  then have rows: "key_rows (observations db2) loc d = [new2]"
    using upsert_key_rows [of "observations db1" new2] assms(5) by (simp add: db2 k2)
  have "other_rows (observations db2) loc d = other_rows (observations db1) loc d"
    using upsert_other_rows [of new2 "observations db1"] assms(5) by (simp add: db2 k2)
  also have "\<dots> = other_rows (observations db) loc d"
    using upsert_other_rows [of new1 "observations db"] assms(5) by (simp add: db1 k1)
  finally have others: "other_rows (observations db2) loc d = other_rows (observations db) loc d" .
  have "locations db2 = locations db"
    by (simp add: db1 db2)
  with ok1 ok2 rows others show ?thesis
    by (simp add: new2_def)
qed


theorem upsert_twice_witness:
  "\<not> insert_raises good_driver
   \<and> unique_constraint (observations sample_db)
   \<and> observation_date sample_observation = VStr ''2026-01-08''
   \<and> observation_date later_observation = VStr ''2026-01-08''
   \<and> VStr ''2026-01-08'' \<noteq> VNone
   \<and> key_rows
         (observations
            (fst (snd (insert_observation good_driver
                         (fst (snd (insert_observation good_driver sample_db 1
                                      sample_observation)))
                         1 later_observation))))
         1 (VStr ''2026-01-08'')
       = [\<lparr>row_location_id = 1, row_observation_date = VStr ''2026-01-08'',
           row_lst = VFloat (Fin 19.02), row_ndvi = VFloat (Fin 0.731)\<rparr>]"
proof -
  have h1: "\<not> insert_raises good_driver"
    by (simp add: good_driver_def)
  have h2: "unique_constraint (observations sample_db)"
    by (simp add: unique_constraint_def sample_db_def)
  have h3: "observation_date sample_observation = VStr ''2026-01-08''"
    by (simp add: sample_observation_def)
  have h4: "observation_date later_observation = VStr ''2026-01-08''"
    by (simp add: later_observation_def)
  have h5: "VStr ''2026-01-08'' \<noteq> VNone"
    by simp
  obtain ok1 db1 events1 message1 where
    c1: "insert_observation good_driver sample_db 1 sample_observation
         = (ok1, db1, events1, message1)"
    by (cases "insert_observation good_driver sample_db 1 sample_observation")
  obtain ok2 db2 events2 message2 where
    c2: "insert_observation good_driver db1 1 later_observation
         = (ok2, db2, events2, message2)"
    by (cases "insert_observation good_driver db1 1 later_observation")
  from upsert_twice [OF h1 h2 h3 h4 h5 c1 c2]
  have "key_rows (observations db2) 1 (VStr ''2026-01-08'')
        = [\<lparr>row_location_id = 1, row_observation_date = VStr ''2026-01-08'',
            row_lst = lst later_observation, row_ndvi = ndvi later_observation\<rparr>]"
    by blast
  then have "key_rows (observations db2) 1 (VStr ''2026-01-08'')
        = [\<lparr>row_location_id = 1, row_observation_date = VStr ''2026-01-08'',
            row_lst = VFloat (Fin 19.02), row_ndvi = VFloat (Fin 0.731)\<rparr>]"
    by (simp add: later_observation_def)
  with h1 h2 h3 h4 h5 show ?thesis
    by (simp add: c1 c2)
qed

section \<open>The run of the ingestor\<close>

lemma save_to_csv_backup_eq:
  "save_to_csv_backup files timestamp obs loc error_message
   = files(backup_path timestamp \<mapsto>
       (case files (backup_path timestamp) of
          None \<Rightarrow> [Header [''location_id'', ''observation_date'', ''lst'', ''ndvi'', ''error'']]
        | Some old_lines \<Rightarrow> old_lines)
       @ [Row \<lparr>csv_location_id = loc,
                csv_observation_date = observation_date obs,
                csv_lst = lst obs,
                csv_ndvi = ndvi obs,
                csv_error = (case error_message of None \<Rightarrow> [] | Some m \<Rightarrow> m)\<rparr>])"
  by (simp add: save_to_csv_backup_def backup_path_def Let_def split: option.splits)

lemma data_rows_save:
  "data_rows (save_to_csv_backup files timestamp obs loc error_message) (backup_path timestamp)
   = data_rows files (backup_path timestamp)
     @ [\<lparr>csv_location_id = loc,
         csv_observation_date = observation_date obs,
         csv_lst = lst obs,
         csv_ndvi = ndvi obs,
         csv_error = (case error_message of None \<Rightarrow> [] | Some m \<Rightarrow> m)\<rparr>]"
  by (simp add: save_to_csv_backup_eq data_rows_def split: option.splits)

lemma other_files_save:
  assumes "p \<noteq> backup_path timestamp"
  shows "save_to_csv_backup files timestamp obs loc error_message p = files p"
  using assms by (simp add: save_to_csv_backup_eq)

lemma verify_unknown_location:
  assumes "loc \<notin> fst ` set (locations db)"
  shows "\<not> verify_location_exists drv db loc"
proof -
  from assms have "find (\<lambda>l. fst l = loc) (locations db) = None"
    by (force simp add: find_None_iff)
  then show ?thesis
    by (simp add: verify_location_exists_def)
qed

lemma msg_location_missing_nonempty: "msg_location_missing loc \<noteq> []"
  by (simp add: msg_location_missing_def)

lemma msg_pymysql_missing_nonempty: "msg_pymysql_missing \<noteq> []"
  by (simp add: msg_pymysql_missing_def)

text \<open>
  A run that is not backup-only, on a readable record and a well-formed port setting,
  for a location that the locations table does not have: the backup is written with
  one of three error texts.
\<close>

lemma main_unknown_location:
  assumes "\<not> backup_only a"
    and "load_json_data json_files (input a) = Inr json_data"
    and "extract_observation_data json_data = Inr obs"
    and "port_is_integer drv"
    and "location_id a \<notin> fst ` set (locations db)"
  shows "\<exists>e log. e \<in> {msg_pymysql_missing, msg_location_missing (location_id a)}
                      \<union> set_option (connect_error drv)
           \<and> main drv json_files db files timestamp a
             = \<lparr>exit_status = 1, store = db,
                backups = save_to_csv_backup files timestamp obs (location_id a) (Some e),
                db_log = log\<rparr>"
  using assms verify_unknown_location [OF assms(5), of drv]
  by (cases "connect_error drv") (auto simp add: main_def)

text \<open>
  C5. A run that is not backup-only, for a location that the locations table does not
  have (the record being readable, the port setting an integer and the driver's
  connection error, if any, a non-empty text): the store is as before, the backup
  file of the run has exactly one more data row, whose error column is not empty, no
  other backup file changes, and the exit status is not zero.
\<close>

theorem unknown_location:
  assumes "\<not> backup_only a"
    and "load_json_data json_files (input a) = Inr json_data"
    and "extract_observation_data json_data = Inr obs"
    and "port_is_integer drv"
    and "connect_error drv \<noteq> Some []"
    and "location_id a \<notin> fst ` set (locations db)"
  shows "exit_status (main drv json_files db files timestamp a) \<noteq> 0
       \<and> store (main drv json_files db files timestamp a) = db
       \<and> (\<exists>e. e \<noteq> []
              \<and> data_rows (backups (main drv json_files db files timestamp a))
                   (backup_path timestamp)
                = data_rows files (backup_path timestamp)
                  @ [\<lparr>csv_location_id = location_id a,
                      csv_observation_date = observation_date obs,
                      csv_lst = lst obs, csv_ndvi = ndvi obs, csv_error = e\<rparr>])
       \<and> (\<forall>p. p \<noteq> backup_path timestamp \<longrightarrow>
              backups (main drv json_files db files timestamp a) p = files p)"
proof -
  from main_unknown_location [OF assms(1-4,6)] obtain e log where
    e: "e \<in> {msg_pymysql_missing, msg_location_missing (location_id a)}
             \<union> set_option (connect_error drv)"
    and run: "main drv json_files db files timestamp a
              = \<lparr>exit_status = 1, store = db,
                 backups = save_to_csv_backup files timestamp obs (location_id a) (Some e),
                 db_log = log\<rparr>"
    by blast
  from e consider "e = msg_pymysql_missing" | "e = msg_location_missing (location_id a)"
    | "connect_error drv = Some e"
    by (cases "connect_error drv") auto
  then have ne: "e \<noteq> []"
  proof cases
    case 1
    then show ?thesis by (simp add: msg_pymysql_missing_nonempty)
  next
    case 2
    then show ?thesis by (simp add: msg_location_missing_nonempty)
  next
    case 3
    with assms(5) show ?thesis by auto
  qed
  have rows: "data_rows (backups (main drv json_files db files timestamp a))
                (backup_path timestamp)
              = data_rows files (backup_path timestamp)
                @ [\<lparr>csv_location_id = location_id a,
                    csv_observation_date = observation_date obs,
                    csv_lst = lst obs, csv_ndvi = ndvi obs, csv_error = e\<rparr>]"
    by (simp add: run data_rows_save)
  have others: "\<forall>p. p \<noteq> backup_path timestamp \<longrightarrow>
                  backups (main drv json_files db files timestamp a) p = files p"
    by (simp add: run other_files_save)
  have "exit_status (main drv json_files db files timestamp a) \<noteq> 0"
    and "store (main drv json_files db files timestamp a) = db"
    by (simp_all add: run)
  with ne rows others show ?thesis
    by blast
qed

lemma sample_load:
  "load_json_data sample_json_files ''data.json'' = Inr sample_record"
  by (simp add: load_json_data_def sample_json_files_def)

theorem unknown_location_witness:
  "\<not> backup_only unknown_location_args
   \<and> load_json_data sample_json_files (input unknown_location_args) = Inr sample_record
   \<and> extract_observation_data sample_record = Inr sample_observation
   \<and> port_is_integer good_driver
   \<and> connect_error good_driver \<noteq> Some []
   \<and> location_id unknown_location_args \<notin> fst ` set (locations sample_db)
   \<and> exit_status (main good_driver sample_json_files sample_db Map.empty ''20260109_100000''
                     unknown_location_args) \<noteq> 0
   \<and> store (main good_driver sample_json_files sample_db Map.empty ''20260109_100000''
               unknown_location_args) = sample_db
   \<and> length (data_rows
               (backups (main good_driver sample_json_files sample_db Map.empty
                           ''20260109_100000'' unknown_location_args))
               (backup_path ''20260109_100000'')) = 1"
proof -
  have h1: "\<not> backup_only unknown_location_args"
    by (simp add: unknown_location_args_def)
  have h2: "load_json_data sample_json_files (input unknown_location_args) = Inr sample_record"
    by (simp add: unknown_location_args_def sample_load)
  have h4: "port_is_integer good_driver" and h5: "connect_error good_driver \<noteq> Some []"
    by (simp_all add: good_driver_def)
  have h6: "location_id unknown_location_args \<notin> fst ` set (locations sample_db)"
    by (simp add: unknown_location_args_def sample_db_def)
  have empty: "data_rows Map.empty (backup_path ''20260109_100000'') = []"
    by (simp add: data_rows_def)
  from unknown_location [OF h1 h2 sample_extraction h4 h5 h6,
      of Map.empty "''20260109_100000''"]
  have "exit_status (main good_driver sample_json_files sample_db Map.empty
                       ''20260109_100000'' unknown_location_args) \<noteq> 0
        \<and> store (main good_driver sample_json_files sample_db Map.empty ''20260109_100000''
                    unknown_location_args) = sample_db
        \<and> length (data_rows
                    (backups (main good_driver sample_json_files sample_db Map.empty
                                ''20260109_100000'' unknown_location_args))
                    (backup_path ''20260109_100000'')) = 1"
    by (auto simp add: empty)
  with h1 h2 sample_extraction h4 h5 h6 show ?thesis
    by blast
qed

text \<open>
  C9, as amended. A backup-only run on a readable record makes no call on the store,
  leaves the store as it was, appends exactly one data row with an empty error column
  to the backup file of the run, changes no other backup file and ends with status 0;
  when the backup file did not exist, it then holds the header and that one row.
\<close>

theorem backup_only_run:
  assumes "backup_only a"
    and "load_json_data json_files (input a) = Inr json_data"
    and "extract_observation_data json_data = Inr obs"
  shows "db_log (main drv json_files db files timestamp a) = []
       \<and> store (main drv json_files db files timestamp a) = db
       \<and> exit_status (main drv json_files db files timestamp a) = 0
       \<and> data_rows (backups (main drv json_files db files timestamp a))
            (backup_path timestamp)
          = data_rows files (backup_path timestamp)
            @ [\<lparr>csv_location_id = location_id a,
                csv_observation_date = observation_date obs,
                csv_lst = lst obs, csv_ndvi = ndvi obs, csv_error = []\<rparr>]
       \<and> (\<forall>p. p \<noteq> backup_path timestamp \<longrightarrow>
              backups (main drv json_files db files timestamp a) p = files p)
       \<and> (files (backup_path timestamp) = None \<longrightarrow>
              backups (main drv json_files db files timestamp a) (backup_path timestamp)
              = Some [Header [''location_id'', ''observation_date'', ''lst'', ''ndvi'',
                              ''error''],
                      Row \<lparr>csv_location_id = location_id a,
                           csv_observation_date = observation_date obs,
                           csv_lst = lst obs, csv_ndvi = ndvi obs, csv_error = []\<rparr>])"
proof -
  from assms have run: "main drv json_files db files timestamp a
             = \<lparr>exit_status = 0, store = db,
                backups = save_to_csv_backup files timestamp obs (location_id a) None,
                db_log = []\<rparr>"
    by (simp add: main_def)
  have "data_rows (backups (main drv json_files db files timestamp a))
          (backup_path timestamp)
        = data_rows files (backup_path timestamp)
          @ [\<lparr>csv_location_id = location_id a,
              csv_observation_date = observation_date obs,
              csv_lst = lst obs, csv_ndvi = ndvi obs, csv_error = []\<rparr>]"
    by (simp add: run data_rows_save)
  moreover have "\<forall>p. p \<noteq> backup_path timestamp \<longrightarrow>
                   backups (main drv json_files db files timestamp a) p = files p"
    by (simp add: run other_files_save)
  moreover have "files (backup_path timestamp) = None \<longrightarrow>
              backups (main drv json_files db files timestamp a) (backup_path timestamp)
              = Some [Header [''location_id'', ''observation_date'', ''lst'', ''ndvi'',
                              ''error''],
                      Row \<lparr>csv_location_id = location_id a,
                           csv_observation_date = observation_date obs,
                           csv_lst = lst obs, csv_ndvi = ndvi obs, csv_error = []\<rparr>]"
    by (simp add: run save_to_csv_backup_eq)
  ultimately show ?thesis
    by (simp add: run)
qed

theorem backup_only_run_witness:
  "backup_only backup_only_args
   \<and> load_json_data sample_json_files (input backup_only_args) = Inr sample_record
   \<and> extract_observation_data sample_record = Inr sample_observation
   \<and> Map.empty (backup_path ''20260109_100000'') = (None :: csv_line list option)
   \<and> db_log (main good_driver sample_json_files sample_db Map.empty ''20260109_100000''
                backup_only_args) = []
   \<and> store (main good_driver sample_json_files sample_db Map.empty ''20260109_100000''
               backup_only_args) = sample_db
   \<and> exit_status (main good_driver sample_json_files sample_db Map.empty ''20260109_100000''
                     backup_only_args) = 0
   \<and> backups (main good_driver sample_json_files sample_db Map.empty ''20260109_100000''
                 backup_only_args) (backup_path ''20260109_100000'')
       = Some [Header [''location_id'', ''observation_date'', ''lst'', ''ndvi'', ''error''],
               Row \<lparr>csv_location_id = 1, csv_observation_date = VStr ''2026-01-08'',
                    csv_lst = VFloat (Fin 18.35), csv_ndvi = VNone, csv_error = []\<rparr>]"
proof -
  have h1: "backup_only backup_only_args"
    by (simp add: backup_only_args_def)
  have h2: "load_json_data sample_json_files (input backup_only_args) = Inr sample_record"
    by (simp add: backup_only_args_def sample_load)
  have h3: "Map.empty (backup_path ''20260109_100000'') = (None :: csv_line list option)"
    by simp
  from backup_only_run [OF h1 h2 sample_extraction,
      of good_driver sample_db Map.empty "''20260109_100000''"] h3
  have "db_log (main good_driver sample_json_files sample_db Map.empty ''20260109_100000''
                  backup_only_args) = []
        \<and> store (main good_driver sample_json_files sample_db Map.empty ''20260109_100000''
                    backup_only_args) = sample_db
        \<and> exit_status (main good_driver sample_json_files sample_db Map.empty
                          ''20260109_100000'' backup_only_args) = 0
        \<and> backups (main good_driver sample_json_files sample_db Map.empty ''20260109_100000''
                      backup_only_args) (backup_path ''20260109_100000'')
            = Some [Header [''location_id'', ''observation_date'', ''lst'', ''ndvi'',
                            ''error''],
                    Row \<lparr>csv_location_id = 1, csv_observation_date = VStr ''2026-01-08'',
                         csv_lst = VFloat (Fin 18.35), csv_ndvi = VNone, csv_error = []\<rparr>]"
    by (simp add: backup_only_args_def sample_observation_def)
  with h1 h2 sample_extraction h3 show ?thesis
    by blast
qed

text \<open>
  C9 as stated fails: when the backup file of the same second already exists, the
  backup-only run creates no file and writes no header; the file then holds two data
  rows.
\<close>

theorem backup_only_run_counterexample:
  "backup_only backup_only_args
   \<and> backups (main good_driver sample_json_files sample_db used_backups ''20260109_100000''
                 backup_only_args) (backup_path ''20260109_100000'')
       = Some [Header [''location_id'', ''observation_date'', ''lst'', ''ndvi'', ''error''],
               Row earlier_row,
               Row \<lparr>csv_location_id = 1, csv_observation_date = VStr ''2026-01-08'',
                    csv_lst = VFloat (Fin 18.35), csv_ndvi = VNone, csv_error = []\<rparr>]
   \<and> length (data_rows
               (backups (main good_driver sample_json_files sample_db used_backups
                           ''20260109_100000'' backup_only_args))
               (backup_path ''20260109_100000'')) = 2"
proof -
  have run: "main good_driver sample_json_files sample_db used_backups ''20260109_100000''
               backup_only_args
             = \<lparr>exit_status = 0, store = sample_db,
                backups = save_to_csv_backup used_backups ''20260109_100000''
                            sample_observation 1 None,
                db_log = []\<rparr>"
    by (simp add: main_def backup_only_args_def sample_load sample_extraction)
  have old: "used_backups (backup_path ''20260109_100000'')
             = Some [Header [''location_id'', ''observation_date'', ''lst'', ''ndvi'',
                             ''error''],
                     Row earlier_row]"
    by (simp add: used_backups_def)
  have content: "backups (main good_driver sample_json_files sample_db used_backups
                         ''20260109_100000'' backup_only_args) (backup_path ''20260109_100000'')
              = Some [Header [''location_id'', ''observation_date'', ''lst'', ''ndvi'',
                              ''error''],
                      Row earlier_row,
                      Row \<lparr>csv_location_id = 1, csv_observation_date = VStr ''2026-01-08'',
                           csv_lst = VFloat (Fin 18.35), csv_ndvi = VNone, csv_error = []\<rparr>]"
    unfolding run by (simp add: save_to_csv_backup_eq old sample_observation_def)
  have "length (data_rows
                  (backups (main good_driver sample_json_files sample_db used_backups
                              ''20260109_100000'' backup_only_args))
                  (backup_path ''20260109_100000'')) = 2"
    unfolding data_rows_def content by simp
  moreover have "backup_only backup_only_args"
    by (simp add: backup_only_args_def)
  ultimately show ?thesis
    using content by blast
qed

end
